theory Spec2Isabelle
  imports Complex_Main "HOL-Library.Multiset"
begin

section \<open>JavaScript numbers\<close>

text \<open>
  Every number of the program is an IEEE-754 binary64 value.  A finite binary64 value is
  a rational, so numbers are modelled as \<open>rat\<close> holding the exact value, and the two
  arithmetic operations the program uses (\<open>*\<close> and \<open>+\<close>) round the exact result to the
  nearest binary64 value, ties to the even significand.  Comparisons are exact.  The
  model covers the normal range (no overflow to infinity, no subnormals, no NaN); every
  literal, score and partial sum of the program lies there.
\<close>

definition round_ties_even :: "rat \<Rightarrow> int" where
  "round_ties_even q =
     (let n = \<lfloor>q\<rfloor>; r = q - of_int n
      in if r < 1 / 2 then n else if 1 / 2 < r then n + 1 else if even n then n else n + 1)"

text \<open>Number of binary digits of a natural number.\<close>

fun bitlen :: "nat \<Rightarrow> nat" where
  "bitlen n = (if n = 0 then 0 else Suc (bitlen (n div 2)))"

declare bitlen.simps [simp del]

definition pow2 :: "int \<Rightarrow> rat" where
  "pow2 e = (if 0 \<le> e then 2 ^ nat e else 1 / 2 ^ nat (- e))"

text \<open>The binary exponent of a positive rational: \<open>pow2 (ilog2 q) \<le> q < pow2 (ilog2 q + 1)\<close>.\<close>

definition ilog2 :: "rat \<Rightarrow> int" where
  "ilog2 q = (if 1 \<le> q then int (bitlen (nat \<lfloor>q\<rfloor>)) - 1
              else - int (bitlen (nat (\<lceil>1 / q\<rceil> - 1))))"

text \<open>Rounding to binary64: 53 significant bits, nearest, ties to even.\<close>

definition fl :: "rat \<Rightarrow> rat" where
  "fl q = (if q = 0 then 0
           else let e = ilog2 \<bar>q\<bar> - 52
                in of_int (round_ties_even (q / pow2 e)) * pow2 e)"

definition fmul :: "rat \<Rightarrow> rat \<Rightarrow> rat" where
  "fmul x y = fl (x * y)"

definition fadd :: "rat \<Rightarrow> rat \<Rightarrow> rat" where
  "fadd x y = fl (x + y)"

text \<open>
  \<open>Math.round\<close>: the nearest integer, a tie going to the integer closer to plus
  infinity.
\<close>

definition Math_round :: "rat \<Rightarrow> int" where
  "Math_round x = \<lfloor>x + 1 / 2\<rfloor>"

text \<open>A decimal literal of the source denotes the binary64 value nearest to it.\<close>

definition lit :: "rat \<Rightarrow> rat" where
  "lit q = fl q"

section \<open>Strings\<close>

definition toUpperCase_char :: "char \<Rightarrow> char" where
  "toUpperCase_char c =
     (let n = (of_char c :: nat) in if 97 \<le> n \<and> n \<le> 122 then char_of (n - 32) else c)"

definition toUpperCase :: "string \<Rightarrow> string" where
  "toUpperCase s = map toUpperCase_char s"

text \<open>Decimal rendering of a non-negative integer, as a template literal prints it.\<close>

fun string_of_nat :: "nat \<Rightarrow> string" where
  "string_of_nat n =
     (if n < 10 then [char_of (48 + n)]
      else string_of_nat (n div 10) @ [char_of (48 + n mod 10)])"

declare string_of_nat.simps [simp del]

section \<open>Arrays\<close>

text \<open>
  \<open>Array.prototype.sort\<close> with a comparator.  The language requires the sort to be
  stable; for a comparator that is a difference of keys the stable result is unique, and
  it is the one insertion from the right produces: an element goes in front of the first
  element it does not compare greater than.
\<close>

fun insert_cmp :: "('a \<Rightarrow> 'a \<Rightarrow> int) \<Rightarrow> 'a \<Rightarrow> 'a list \<Rightarrow> 'a list" where
  "insert_cmp cmp x [] = [x]"
| "insert_cmp cmp x (y # ys) =
     (if cmp x y \<le> 0 then x # y # ys else y # insert_cmp cmp x ys)"

definition array_sort :: "('a \<Rightarrow> 'a \<Rightarrow> int) \<Rightarrow> 'a list \<Rightarrow> 'a list" where
  "array_sort cmp xs = foldr (insert_cmp cmp) xs []"

text \<open>\<open>xs.slice(0, n)\<close>\<close>

definition slice0 :: "nat \<Rightarrow> 'a list \<Rightarrow> 'a list" where
  "slice0 n xs = take n xs"

text \<open>\<open>xs.some(p)\<close>\<close>

definition some :: "('a \<Rightarrow> bool) \<Rightarrow> 'a list \<Rightarrow> bool" where
  "some p xs = list_ex p xs"

section \<open>The audit engine's result\<close>

text \<open>
  Modelled from the spec: what \<open>runLighthouseAudit\<close> (\<open>index.ts\<close>) resolves to, the result
  type of the audit engine: a mapping from audit id to score (a number or null), display
  mode, title and description, and per category a score and the list of audit
  references.  Only what the adapter reads is kept.  An absent \<open>categories\<close> or \<open>audits\<close>
  object reads like an empty one through \<open>?.\<close>, and an absent \<open>auditRefs\<close> like the empty
  list through \<open>|| []\<close>.
\<close>

record Audit =
  audit_score :: "rat option"
  scoreDisplayMode :: string
  audit_title :: string
  audit_description :: string

record AuditRef =
  ref_id :: string

record Category =
  category_score :: "rat option"
  auditRefs :: "AuditRef list"

record LighthouseResult =
  categories :: "string \<rightharpoonup> Category"
  audits :: "string \<rightharpoonup> Audit"

datatype error = Error string

fun message :: "error \<Rightarrow> string" where
  "message (Error m) = m"

section \<open>pwa.ts\<close>

datatype severity = Critical | Serious | Moderate | Minor

fun severity_string :: "severity \<Rightarrow> string" where
  "severity_string Critical = ''critical''"
| "severity_string Serious = ''serious''"
| "severity_string Moderate = ''moderate''"
| "severity_string Minor = ''minor''"

record audit_counts =
  failed :: nat
  passed :: nat
  manual :: nat
  informative :: nat
  not_applicable :: nat

record PWAInstallability =
  is_installable :: bool
  has_manifest :: bool
  has_service_worker :: bool
  has_icons :: bool
  installability_issues :: "string list"

record PWAIssue =
  issue_id :: string
  issue_title :: string
  issue_description :: string
  issue_score :: "rat option"
  issue_severity :: severity

record PWAReportContent =
  pwa_score :: int
  pwa_audit_counts :: audit_counts
  installability :: PWAInstallability
  offline_support :: bool
  fast_reliable :: bool
  optimized :: bool
  pwa_issues :: "PWAIssue list"
  prioritized_recommendations :: "string list option"

record 'c ReportBody =
  category :: string
  content :: 'c

record 'c AIOptimizedReport =
  report :: "'c ReportBody"

text \<open>\<open>audit?.score === 1\<close>\<close>

definition score_is_1 :: "Audit option \<Rightarrow> bool" where
  "score_is_1 a = (case a of None \<Rightarrow> False | Some x \<Rightarrow> audit_score x = Some 1)"

text \<open>\<open>audit && audit.score !== 1\<close>\<close>

definition present_not_1 :: "Audit option \<Rightarrow> bool" where
  "present_not_1 a = (case a of None \<Rightarrow> False | Some x \<Rightarrow> audit_score x \<noteq> Some 1)"

definition push_if :: "bool \<Rightarrow> 'a \<Rightarrow> 'a list \<Rightarrow> 'a list" where
  "push_if c x xs = (if c then xs @ [x] else xs)"

definition pwa_installability :: "LighthouseResult \<Rightarrow> PWAInstallability" where
  "pwa_installability result =
     (let manifestAudit = audits result ''installable-manifest'';
          serviceWorkerAudit = audits result ''service-worker'';
          iconsAudit = audits result ''apple-touch-icon'';
          splashScreenAudit = audits result ''splash-screen'';
          themedOmniboxAudit = audits result ''themed-omnibox'';
          inst = \<lparr> is_installable = score_is_1 manifestAudit \<and> score_is_1 serviceWorkerAudit,
                   has_manifest = score_is_1 manifestAudit,
                   has_service_worker = score_is_1 serviceWorkerAudit,
                   has_icons = score_is_1 iconsAudit,
                   installability_issues = [] \<rparr>;
          i1 = push_if (\<not> has_manifest inst)
                 ''Missing or invalid web app manifest (manifest.json)'' [];
          i2 = push_if (\<not> has_service_worker inst)
                 ''No service worker registered (required for offline support)'' i1;
          i3 = push_if (\<not> has_icons inst)
                 ''Missing app icons (required for installation)'' i2;
          i4 = push_if (present_not_1 splashScreenAudit)
                 ''Splash screen configuration incomplete'' i3;
          i5 = push_if (present_not_1 themedOmniboxAudit)
                 ''Themed omnibox (theme-color) not configured'' i4
      in inst\<lparr> installability_issues := i5 \<rparr>)"

text \<open>The severity of a failed audit, from its score (lines 163 to 171).\<close>

definition failed_audit_severity :: "rat option \<Rightarrow> severity" where
  "failed_audit_severity s =
     (if s = Some 0 then Critical
      else if s \<noteq> None \<and> the s \<le> lit (1 / 2) then Serious
      else if s \<noteq> None \<and> the s > lit (7 / 10) then Minor
      else Moderate)"

text \<open>The state of the loop over \<open>auditRefs\<close>: the five counters and the issues so far.\<close>

record audit_loop =
  failedCount :: nat
  passedCount :: nat
  manualCount :: nat
  informativeCount :: nat
  notApplicableCount :: nat
  issues :: "PWAIssue list"

definition audit_loop_init :: audit_loop where
  "audit_loop_init =
     \<lparr> failedCount = 0, passedCount = 0, manualCount = 0, informativeCount = 0,
       notApplicableCount = 0, issues = [] \<rparr>"

definition audit_loop_body :: "LighthouseResult \<Rightarrow> AuditRef \<Rightarrow> audit_loop \<Rightarrow> audit_loop" where
  "audit_loop_body result ref st =
     (case audits result (ref_id ref) of
        None \<Rightarrow> st
      | Some audit \<Rightarrow>
          if scoreDisplayMode audit = ''manual'' then st\<lparr> manualCount := manualCount st + 1 \<rparr>
          else if scoreDisplayMode audit = ''informative''
            then st\<lparr> informativeCount := informativeCount st + 1 \<rparr>
          else if scoreDisplayMode audit = ''notApplicable''
            then st\<lparr> notApplicableCount := notApplicableCount st + 1 \<rparr>
          else if audit_score audit = Some 1 then st\<lparr> passedCount := passedCount st + 1 \<rparr>
          else st\<lparr> failedCount := failedCount st + 1,
                   issues := issues st @
                     [\<lparr> issue_id = ref_id ref,
                        issue_title = audit_title audit,
                        issue_description = audit_description audit,
                        issue_score = audit_score audit,
                        issue_severity = failed_audit_severity (audit_score audit) \<rparr>] \<rparr>)"

definition audit_loop_run :: "LighthouseResult \<Rightarrow> AuditRef list \<Rightarrow> audit_loop" where
  "audit_loop_run result refs = fold (audit_loop_body result) refs audit_loop_init"

fun severityOrder :: "severity \<Rightarrow> int" where
  "severityOrder Critical = 0"
| "severityOrder Serious = 1"
| "severityOrder Moderate = 2"
| "severityOrder Minor = 3"

definition severity_cmp :: "PWAIssue \<Rightarrow> PWAIssue \<Rightarrow> int" where
  "severity_cmp a b = severityOrder (issue_severity a) - severityOrder (issue_severity b)"

definition recommendation_line :: "PWAIssue \<Rightarrow> string" where
  "recommendation_line issue =
     toUpperCase (severity_string (issue_severity issue)) @ '': '' @ issue_title issue"

text \<open>
  The body of \<open>runPWAAudit\<close> once the engine has answered.  \<open>issues.sort(...)\<close> sorts the
  array in place and returns it, so the \<open>issues\<close> that the report holds afterwards is the
  sorted array; \<open>map\<close> and \<open>slice\<close> build new arrays.
\<close>

definition pwa_report :: "LighthouseResult \<Rightarrow> Category \<Rightarrow> PWAReportContent" where
  "pwa_report result pwaCategory =
     (let score = Math_round (fmul (case category_score pwaCategory of None \<Rightarrow> 0 | Some s \<Rightarrow> s) 100);
          inst = pwa_installability result;
          st = audit_loop_run result (auditRefs pwaCategory);
          issues_sorted = array_sort severity_cmp (issues st);
          recs = slice0 5 (map recommendation_line issues_sorted);
          offline = score_is_1 (audits result ''service-worker'')
      in \<lparr> pwa_score = score,
           pwa_audit_counts =
             \<lparr> failed = failedCount st, passed = passedCount st, manual = manualCount st,
               informative = informativeCount st, not_applicable = notApplicableCount st \<rparr>,
           installability = inst,
           offline_support = offline,
           fast_reliable = (score \<ge> 70),
           optimized = (score \<ge> 90),
           pwa_issues = issues_sorted,
           prioritized_recommendations = Some recs \<rparr>)"

text \<open>
  \<open>runPWAAudit\<close>.  The first argument is the outcome of \<open>runLighthouseAudit\<close>: a failure or
  a result.  Whatever is thrown inside the \<open>try\<close> block, the missing category included, is
  caught and thrown again with the prefix.
\<close>

definition rethrow :: "string \<Rightarrow> error \<Rightarrow> error" where
  "rethrow prefix e = Error (prefix @ message e)"

definition runPWAAudit :: "error + LighthouseResult \<Rightarrow> error + PWAReportContent AIOptimizedReport" where
  "runPWAAudit engine =
     (case engine of
        Inl e \<Rightarrow> Inl (rethrow ''PWA audit failed: '' e)
      | Inr result \<Rightarrow>
          (case categories result ''pwa'' of
             None \<Rightarrow> Inl (rethrow ''PWA audit failed: ''
                         (Error ''PWA category not found in Lighthouse result''))
           | Some pwaCategory \<Rightarrow>
               Inr \<lparr> report = \<lparr> category = ''pwa'', content = pwa_report result pwaCategory \<rparr> \<rparr>))"

section \<open>Reports of the other four adapters\<close>

text \<open>
  Modelled from the spec: the report types \<open>PerformanceReportContent\<close>,
  \<open>AccessibilityReportContent\<close>, \<open>SEOReportContent\<close> and \<open>BestPracticesReportContent\<close>, which
  \<open>comprehensive-analysis.ts\<close> imports from \<open>performance.ts\<close>, \<open>accessibility.ts\<close>, \<open>seo.ts\<close>
  and \<open>best-practices.ts\<close>.  The specification gives every category report an integer
  score from 0 to 100, the five audit counts and an ordered issue list whose
  severity or impact field ranges over the four severity values.  The records below hold
  these and the fields that \<open>comprehensive-analysis.ts\<close> reads or writes, under the names
  and at the types it uses; the element types of the lists it only ever creates empty are
  left abstract.
\<close>

typedecl PerformanceMetric
typedecl PerformanceDiagnostic
typedecl IncompleteCheck
typedecl ManualCheck

record CoreWebVitals =
  CLS :: "rat option"
  LCP :: "rat option"

record PerformanceOpportunity =
  opportunity_id :: string
  opportunity_impact :: severity

record PerformanceReportContent =
  perf_score :: int
  perf_audit_counts :: audit_counts
  core_web_vitals :: CoreWebVitals
  metrics :: "PerformanceMetric list"
  opportunities :: "PerformanceOpportunity list"
  diagnostics :: "PerformanceDiagnostic list"

record AccessibilityViolation =
  violation_id :: string
  violation_impact :: severity

record AccessibilityReportContent =
  a11y_score :: int
  a11y_audit_counts :: audit_counts
  violations :: "AccessibilityViolation list"
  incomplete :: "IncompleteCheck list"
  manual_checks :: "ManualCheck list"

record SEOIssue =
  seo_issue_id :: string
  seo_issue_category :: string
  seo_issue_impact :: severity

record SEOCategory =
  issues_count :: int

record SEOReportContent =
  seo_score :: int
  seo_audit_counts :: audit_counts
  seo_issues :: "SEOIssue list"
  seo_categories :: "string \<rightharpoonup> SEOCategory"

record BestPracticesIssue =
  bp_issue_id :: string
  bp_issue_severity :: severity

record BestPracticesReportContent =
  bp_score :: int
  bp_audit_counts :: audit_counts
  bp_issues :: "BestPracticesIssue list"

text \<open>
  Modelled from the spec: the result type of \<open>runSEOAudit\<close>, declared in \<open>seo.ts\<close> and
  \<open>types.ts\<close>.  It holds the report content directly under \<open>report\<close>: the orchestrator reads
  \<open>seoResult?.report?.score\<close> and passes \<open>seoResult?.report\<close> on as the \<open>SEOReportContent\<close>
  (the field is named \<open>direct_report\<close> here, \<open>report\<close> being taken).
\<close>

record 'c LighthouseReport =
  direct_report :: 'c

section \<open>comprehensive-analysis.ts\<close>

datatype effort_level = Low | Medium | High

record CrossCategoryInsight =
  insight_id :: string
  insight_title :: string
  insight_description :: string
  affected_categories :: "string list"
  insight_impact :: severity
  recommendation :: string

record PrioritizedActionItem =
  rank :: nat
  action_title :: string
  action_description :: string
  action_categories :: "string list"
  action_impact :: severity
  effort :: effort_level
  roi_score :: int
  action_steps :: "string list"

record QuickWin =
  qw_title :: string
  qw_category :: string
  qw_impact :: string
  estimated_time :: string
  qw_action :: string

record CategoryScores =
  cs_performance :: int
  cs_accessibility :: int
  cs_seo :: int
  cs_best_practices :: int
  cs_pwa :: int

record Summary =
  total_issues :: nat
  critical_issues :: nat
  total_audits :: nat
  passed_audits :: nat
  failed_audits :: nat

record ComprehensiveSiteAnalysis =
  csa_url :: string
  csa_analyzed_at :: string
  csa_overall_score :: int
  csa_category_scores :: CategoryScores
  csa_performance :: PerformanceReportContent
  csa_accessibility :: AccessibilityReportContent
  csa_seo :: SEOReportContent
  csa_best_practices :: BestPracticesReportContent
  csa_pwa :: PWAReportContent
  csa_cross_category_insights :: "CrossCategoryInsight list"
  csa_prioritized_action_items :: "PrioritizedActionItem list"
  csa_quick_wins :: "QuickWin list"
  csa_summary :: Summary

subsection \<open>Empty reports\<close>

definition empty_audit_counts :: audit_counts where
  "empty_audit_counts =
     \<lparr> failed = 0, passed = 0, manual = 0, informative = 0, not_applicable = 0 \<rparr>"

definition createEmptyPerformanceReport :: PerformanceReportContent where
  "createEmptyPerformanceReport =
     \<lparr> perf_score = 0, perf_audit_counts = empty_audit_counts,
       core_web_vitals = \<lparr> CLS = None, LCP = None \<rparr>,
       metrics = [], opportunities = [], diagnostics = [] \<rparr>"

definition createEmptyAccessibilityReport :: AccessibilityReportContent where
  "createEmptyAccessibilityReport =
     \<lparr> a11y_score = 0, a11y_audit_counts = empty_audit_counts,
       violations = [], incomplete = [], manual_checks = [] \<rparr>"

definition createEmptySEOReport :: SEOReportContent where
  "createEmptySEOReport =
     \<lparr> seo_score = 0, seo_audit_counts = empty_audit_counts,
       seo_issues = [], seo_categories = Map.empty \<rparr>"

definition createEmptyBestPracticesReport :: BestPracticesReportContent where
  "createEmptyBestPracticesReport =
     \<lparr> bp_score = 0, bp_audit_counts = empty_audit_counts, bp_issues = [] \<rparr>"

definition createEmptyPWAReport :: PWAReportContent where
  "createEmptyPWAReport =
     \<lparr> pwa_score = 0, pwa_audit_counts = empty_audit_counts,
       installability =
         \<lparr> is_installable = False, has_manifest = False, has_service_worker = False,
           has_icons = False, installability_issues = [] \<rparr>,
       offline_support = False, fast_reliable = False, optimized = False,
       pwa_issues = [], prioritized_recommendations = None \<rparr>"

subsection \<open>calculateSummary\<close>

definition count_critical :: "('a \<Rightarrow> severity) \<Rightarrow> 'a list \<Rightarrow> nat" where
  "count_critical f xs = length (filter (\<lambda>x. f x = Critical) xs)"

definition calculateSummary ::
  "PerformanceReportContent \<Rightarrow> AccessibilityReportContent \<Rightarrow> SEOReportContent \<Rightarrow>
   BestPracticesReportContent \<Rightarrow> PWAReportContent \<Rightarrow> Summary" where
  "calculateSummary performance accessibility seo best_practices pwa =
     \<lparr> total_issues =
         length (opportunities performance) + length (violations accessibility) +
         length (seo_issues seo) + length (bp_issues best_practices) + length (pwa_issues pwa),
       critical_issues =
         count_critical opportunity_impact (opportunities performance) +
         count_critical violation_impact (violations accessibility) +
         count_critical seo_issue_impact (seo_issues seo) +
         count_critical bp_issue_severity (bp_issues best_practices) +
         count_critical issue_severity (pwa_issues pwa),
       total_audits =
         failed (perf_audit_counts performance) + passed (perf_audit_counts performance) +
         failed (a11y_audit_counts accessibility) + passed (a11y_audit_counts accessibility) +
         failed (seo_audit_counts seo) + passed (seo_audit_counts seo) +
         failed (bp_audit_counts best_practices) + passed (bp_audit_counts best_practices) +
         failed (pwa_audit_counts pwa) + passed (pwa_audit_counts pwa),
       passed_audits =
         passed (perf_audit_counts performance) + passed (a11y_audit_counts accessibility) +
         passed (seo_audit_counts seo) + passed (bp_audit_counts best_practices) +
         passed (pwa_audit_counts pwa),
       failed_audits =
         failed (perf_audit_counts performance) + failed (a11y_audit_counts accessibility) +
         failed (seo_audit_counts seo) + failed (bp_audit_counts best_practices) +
         failed (pwa_audit_counts pwa) \<rparr>"

subsection \<open>generateCrossCategoryInsights\<close>

text \<open>\<open>x && x > c\<close> on an optional number: present, not zero, and greater than \<open>c\<close>.\<close>

definition truthy_and_gt :: "rat option \<Rightarrow> rat \<Rightarrow> bool" where
  "truthy_and_gt x c = (case x of None \<Rightarrow> False | Some v \<Rightarrow> v \<noteq> 0 \<and> v > c)"

definition mobile_issues_positive :: "SEOReportContent \<Rightarrow> bool" where
  "mobile_issues_positive seo =
     (case seo_categories seo ''mobile'' of None \<Rightarrow> False | Some m \<Rightarrow> issues_count m > 0)"

definition insight_large_images :: CrossCategoryInsight where
  "insight_large_images =
     \<lparr> insight_id = ''large-images-multi-impact'',
       insight_title = ''Image optimization affects multiple areas'',
       insight_description =
         ''Unoptimized images are impacting page load speed, accessibility (missing alt text), and potentially SEO rankings.'',
       affected_categories = [''performance'', ''accessibility'', ''seo''],
       insight_impact = Serious,
       recommendation =
         ''Compress images, add descriptive alt text, and use next-gen formats (WebP, AVIF) to improve performance, accessibility, and SEO simultaneously.'' \<rparr>"

definition insight_mobile :: CrossCategoryInsight where
  "insight_mobile =
     \<lparr> insight_id = ''mobile-optimization-needed'',
       insight_title = ''Mobile experience needs improvement'',
       insight_description =
         ''Layout shifts (CLS) and mobile usability issues are impacting Core Web Vitals, SEO rankings, and user experience on mobile devices.'',
       affected_categories = [''performance'', ''seo'', ''accessibility''],
       insight_impact = Serious,
       recommendation =
         ''Fix layout shifts by reserving space for images/ads, optimize viewport settings, and ensure touch targets are appropriately sized.'' \<rparr>"

definition insight_pwa :: CrossCategoryInsight where
  "insight_pwa =
     \<lparr> insight_id = ''pwa-capabilities-missing'',
       insight_title = ''PWA features could improve performance and engagement'',
       insight_description =
         ''Adding PWA capabilities (service worker, manifest) would enable offline support, faster repeat visits, and installability.'',
       affected_categories = [''pwa'', ''performance''],
       insight_impact = Moderate,
       recommendation =
         ''Implement a service worker for caching, create a web app manifest, and add app icons to enable PWA installation.'' \<rparr>"

definition insight_https :: CrossCategoryInsight where
  "insight_https =
     \<lparr> insight_id = ''https-security-seo'',
       insight_title = ''HTTPS migration needed for security and SEO'',
       insight_description =
         ''Non-HTTPS pages are flagged by browsers as insecure and may be penalized in search rankings.'',
       affected_categories = [''best_practices'', ''seo''],
       insight_impact = Critical,
       recommendation =
         ''Migrate entire site to HTTPS, update internal links, and implement proper redirects from HTTP to HTTPS.'' \<rparr>"

text \<open>The two arrows of the recommendation are U+2192, written here as UTF-8 bytes.\<close>

definition right_arrow :: string where
  "right_arrow = [char_of (226 :: nat), char_of (134 :: nat), char_of (146 :: nat)]"

definition insight_semantic :: CrossCategoryInsight where
  "insight_semantic =
     \<lparr> insight_id = ''semantic-html-structure'',
       insight_title = ''HTML structure impacts both accessibility and SEO'',
       insight_description =
         ''Proper heading hierarchy and semantic HTML help screen readers and search engines understand page content.'',
       affected_categories = [''accessibility'', ''seo''],
       insight_impact = Moderate,
       recommendation =
         ''Use proper heading hierarchy (h1'' @ right_arrow @ ''h2'' @ right_arrow @
         ''h3), semantic HTML5 elements, and descriptive page titles.'' \<rparr>"

definition generateCrossCategoryInsights ::
  "PerformanceReportContent \<Rightarrow> AccessibilityReportContent \<Rightarrow> SEOReportContent \<Rightarrow>
   BestPracticesReportContent \<Rightarrow> PWAReportContent \<Rightarrow> CrossCategoryInsight list" where
  "generateCrossCategoryInsights performance accessibility seo best_practices pwa =
     (let insights0 = [];
          insights1 = push_if
            (some (\<lambda>opp. opportunity_id opp = ''uses-optimized-images'') (opportunities performance) \<and>
             some (\<lambda>v. violation_id v = ''image-alt'') (violations accessibility))
            insight_large_images insights0;
          insights2 = push_if
            (truthy_and_gt (CLS (core_web_vitals performance)) (lit (1 / 10)) \<and>
             mobile_issues_positive seo)
            insight_mobile insights1;
          insights3 = push_if
            (\<not> is_installable (installability pwa) \<and> perf_score performance < 70 \<and>
             \<not> offline_support pwa)
            insight_pwa insights2;
          insights4 = push_if
            (some (\<lambda>i. bp_issue_id i = ''is-on-https'') (bp_issues best_practices) \<and>
             some (\<lambda>i. seo_issue_category i = ''crawlability'') (seo_issues seo))
            insight_https insights3;
          insights5 = push_if
            (some (\<lambda>v. violation_id v \<in> set [''heading-order'', ''document-title''])
               (violations accessibility) \<and>
             some (\<lambda>i. seo_issue_category i = ''content'') (seo_issues seo))
            insight_semantic insights4
      in insights5)"

subsection \<open>generatePrioritizedActionItems\<close>

definition action_https :: "nat \<Rightarrow> PrioritizedActionItem" where
  \<open>action_https r =
     \<lparr> rank = r,
       action_title = ''Migrate to HTTPS'',
       action_description =
         ''Implement SSL/TLS encryption for all pages to secure user data and meet security best practices.'',
       action_categories = [''best_practices'', ''seo''],
       action_impact = Critical,
       effort = Medium,
       roi_score = 95,
       action_steps =
         [''1. Obtain SSL certificate (Let'' @ [char_of (39 :: nat)] @ ''s Encrypt is free)'',
          ''2. Configure server to use HTTPS'',
          ''3. Update all internal links to use HTTPS'',
          ''4. Implement 301 redirects from HTTP to HTTPS'',
          ''5. Update sitemap and robots.txt''] \<rparr>\<close>

definition action_lcp :: "nat \<Rightarrow> PrioritizedActionItem" where
  \<open>action_lcp r =
     \<lparr> rank = r,
       action_title = ''Optimize Largest Contentful Paint (LCP)'',
       action_description =
         ''Improve page load speed by optimizing the largest visible element'' @
         [char_of (39 :: nat)] @ ''s load time (currently exceeds 2.5s threshold).'',
       action_categories = [''performance'', ''seo''],
       action_impact = Serious,
       effort = Medium,
       roi_score = 90,
       action_steps =
         [''1. Optimize and compress the LCP element (image/text block)'',
          ''2. Use CDN for faster content delivery'',
          ''3. Preload critical resources'',
          ''4. Remove render-blocking JavaScript'',
          ''5. Consider lazy loading non-critical content''] \<rparr>\<close>

definition action_a11y :: "nat \<Rightarrow> nat \<Rightarrow> PrioritizedActionItem" where
  \<open>action_a11y r n =
     \<lparr> rank = r,
       action_title = ''Fix '' @ string_of_nat n @ '' critical accessibility issues'',
       action_description =
         ''Address WCAG violations that prevent users with disabilities from accessing content.'',
       action_categories = [''accessibility''],
       action_impact = Critical,
       effort = Low,
       roi_score = 85,
       action_steps =
         [''1. Add alt text to all images'',
          ''2. Ensure proper color contrast (4.5:1 minimum)'',
          ''3. Add labels to form inputs'',
          ''4. Ensure keyboard navigation works'',
          ''5. Use semantic HTML elements''] \<rparr>\<close>

definition action_meta :: "nat \<Rightarrow> PrioritizedActionItem" where
  \<open>action_meta r =
     \<lparr> rank = r,
       action_title = ''Add meta descriptions'',
       action_description =
         ''Create compelling meta descriptions to improve click-through rates from search results.'',
       action_categories = [''seo''],
       action_impact = Moderate,
       effort = Low,
       roi_score = 80,
       action_steps =
         [''1. Write unique, descriptive meta descriptions (150-160 chars)'',
          ''2. Include target keywords naturally'',
          ''3. Add compelling call-to-action'',
          ''4. Ensure each page has a unique meta description''] \<rparr>\<close>

definition action_pwa :: "nat \<Rightarrow> PrioritizedActionItem" where
  \<open>action_pwa r =
     \<lparr> rank = r,
       action_title = ''Implement Progressive Web App features'',
       action_description =
         ''Add PWA capabilities to enable offline support, faster load times, and home screen installation.'',
       action_categories = [''pwa'', ''performance''],
       action_impact = Moderate,
       effort = High,
       roi_score = 70,
       action_steps =
         [''1. Create web app manifest (manifest.json)'',
          ''2. Add app icons (multiple sizes)'',
          ''3. Implement service worker for caching'',
          ''4. Test offline functionality'',
          ''5. Configure theme color and splash screen''] \<rparr>\<close>

text \<open>The array as it stands before line 519: the candidates, in the order pushed.\<close>

definition action_candidates ::
  "PerformanceReportContent \<Rightarrow> AccessibilityReportContent \<Rightarrow> SEOReportContent \<Rightarrow>
   BestPracticesReportContent \<Rightarrow> PWAReportContent \<Rightarrow> PrioritizedActionItem list" where
  "action_candidates performance accessibility seo best_practices pwa =
     (let action_items0 = [];
          action_items1 = push_if
            (some (\<lambda>i. bp_issue_id i = ''is-on-https'' \<and> bp_issue_severity i = Critical)
               (bp_issues best_practices))
            (action_https 1) action_items0;
          action_items2 = push_if
            (truthy_and_gt (LCP (core_web_vitals performance)) 2500)
            (action_lcp (length action_items1 + 1)) action_items1;
          criticalA11yIssues =
            filter (\<lambda>v. violation_impact v = Critical) (violations accessibility);
          action_items3 = push_if
            (length criticalA11yIssues > 0)
            (action_a11y (length action_items2 + 1) (length criticalA11yIssues)) action_items2;
          action_items4 = push_if
            (some (\<lambda>i. seo_issue_id i = ''meta-description'') (seo_issues seo))
            (action_meta (length action_items3 + 1)) action_items3;
          action_items5 = push_if
            (\<not> is_installable (installability pwa) \<and> pwa_score pwa < 50)
            (action_pwa (length action_items4 + 1)) action_items4
      in action_items5)"

definition roi_cmp :: "PrioritizedActionItem \<Rightarrow> PrioritizedActionItem \<Rightarrow> int" where
  "roi_cmp a b = roi_score b - roi_score a"

text \<open>\<open>forEach((item, index) => { item.rank = index + 1 })\<close>\<close>

definition update_ranks :: "PrioritizedActionItem list \<Rightarrow> PrioritizedActionItem list" where
  "update_ranks xs = map (\<lambda>(index, item). item\<lparr> rank := index + 1 \<rparr>) (enumerate 0 xs)"

text \<open>Lines 519 to 527: sort, renumber, keep the first ten.\<close>

definition sort_rank_slice :: "PrioritizedActionItem list \<Rightarrow> PrioritizedActionItem list" where
  "sort_rank_slice action_items = slice0 10 (update_ranks (array_sort roi_cmp action_items))"

definition generatePrioritizedActionItems ::
  "PerformanceReportContent \<Rightarrow> AccessibilityReportContent \<Rightarrow> SEOReportContent \<Rightarrow>
   BestPracticesReportContent \<Rightarrow> PWAReportContent \<Rightarrow> CrossCategoryInsight list \<Rightarrow>
   PrioritizedActionItem list" where
  "generatePrioritizedActionItems performance accessibility seo best_practices pwa
       cross_category_insights =
     sort_rank_slice (action_candidates performance accessibility seo best_practices pwa)"

subsection \<open>generateQuickWins\<close>

definition dq :: string where
  "dq = [char_of (34 :: nat)]"

definition quick_win_meta :: QuickWin where
  "quick_win_meta =
     \<lparr> qw_title = ''Add meta description'',
       qw_category = ''seo'',
       qw_impact = ''Improves click-through rate from search results'',
       estimated_time = ''5 minutes'',
       qw_action =
         ''Add <meta name='' @ dq @ ''description'' @ dq @ '' content='' @ dq @
         ''Your page description here'' @ dq @ ''> to <head>'' \<rparr>"

definition quick_win_alt :: QuickWin where
  "quick_win_alt =
     \<lparr> qw_title = ''Add alt text to images'',
       qw_category = ''accessibility'',
       qw_impact = ''Improves accessibility for screen readers and SEO'',
       estimated_time = ''10 minutes'',
       qw_action =
         ''Add alt='' @ dq @ ''descriptive text'' @ dq @ '' attribute to all <img> tags'' \<rparr>"

definition quick_win_compression :: QuickWin where
  "quick_win_compression =
     \<lparr> qw_title = ''Enable Gzip/Brotli compression'',
       qw_category = ''performance'',
       qw_impact = ''Reduces file transfer size by 70-90%'',
       estimated_time = ''15 minutes'',
       qw_action = ''Configure server to enable Gzip or Brotli compression for text files'' \<rparr>"

definition quick_win_viewport :: QuickWin where
  "quick_win_viewport =
     \<lparr> qw_title = ''Add viewport meta tag'',
       qw_category = ''seo'',
       qw_impact = ''Improves mobile rendering and SEO'',
       estimated_time = ''2 minutes'',
       qw_action =
         ''Add <meta name='' @ dq @ ''viewport'' @ dq @ '' content='' @ dq @
         ''width=device-width, initial-scale=1'' @ dq @ ''> to <head>'' \<rparr>"

definition quick_win_title :: QuickWin where
  "quick_win_title =
     \<lparr> qw_title = ''Add descriptive page title'',
       qw_category = ''seo'',
       qw_impact = ''Improves SEO and browser tab identification'',
       estimated_time = ''5 minutes'',
       qw_action = ''Add <title>Your Page Title - Site Name</title> to <head> section'' \<rparr>"

definition quick_win_contrast :: QuickWin where
  "quick_win_contrast =
     \<lparr> qw_title = ''Fix color contrast issues'',
       qw_category = ''accessibility'',
       qw_impact = ''Improves readability for users with vision impairments'',
       estimated_time = ''20 minutes'',
       qw_action = ''Adjust text and background colors to meet 4.5:1 contrast ratio'' \<rparr>"

definition generateQuickWins ::
  "PerformanceReportContent \<Rightarrow> AccessibilityReportContent \<Rightarrow> SEOReportContent \<Rightarrow>
   BestPracticesReportContent \<Rightarrow> PWAReportContent \<Rightarrow> QuickWin list" where
  "generateQuickWins performance accessibility seo best_practices pwa =
     (let quick_wins0 = [];
          quick_wins1 = push_if
            (some (\<lambda>i. seo_issue_id i = ''meta-description'') (seo_issues seo))
            quick_win_meta quick_wins0;
          quick_wins2 = push_if
            (some (\<lambda>v. violation_id v = ''image-alt'') (violations accessibility))
            quick_win_alt quick_wins1;
          quick_wins3 = push_if
            (some (\<lambda>opp. opportunity_id opp = ''uses-text-compression'')
               (opportunities performance))
            quick_win_compression quick_wins2;
          quick_wins4 = push_if
            (some (\<lambda>i. seo_issue_id i = ''viewport'') (seo_issues seo))
            quick_win_viewport quick_wins3;
          quick_wins5 = push_if
            (some (\<lambda>i. seo_issue_id i = ''document-title'') (seo_issues seo))
            quick_win_title quick_wins4;
          quick_wins6 = push_if
            (some (\<lambda>v. violation_id v = ''color-contrast'') (violations accessibility))
            quick_win_contrast quick_wins5
      in slice0 6 quick_wins6)"

subsection \<open>runComprehensiveSiteAnalysis\<close>

text \<open>\<open>promise.catch((err) => null)\<close>: a failed adapter becomes \<open>null\<close>.\<close>

definition catch_null :: "error + 'a \<Rightarrow> 'a option" where
  "catch_null outcome = (case outcome of Inl err \<Rightarrow> None | Inr v \<Rightarrow> Some v)"

text \<open>\<open>x?.score || 0\<close>: zero when the result is \<open>null\<close> or the score is zero.\<close>

definition score_or_0 :: "int option \<Rightarrow> int" where
  "score_or_0 s = (case s of None \<Rightarrow> 0 | Some v \<Rightarrow> if v = 0 then 0 else v)"

text \<open>\<open>x?.report?.content || createEmpty()\<close>\<close>

definition content_or :: "'c option \<Rightarrow> 'c \<Rightarrow> 'c" where
  "content_or c d = (case c of None \<Rightarrow> d | Some v \<Rightarrow> v)"

text \<open>Lines 137 to 143: the argument of \<open>Math.round\<close>.  The sum associates to the left.\<close>

definition weighted_sum :: "CategoryScores \<Rightarrow> rat" where
  "weighted_sum category_scores =
     fadd (fadd (fadd (fadd
       (fmul (of_int (cs_performance category_scores)) (lit (3 / 10)))
       (fmul (of_int (cs_accessibility category_scores)) (lit (25 / 100))))
       (fmul (of_int (cs_seo category_scores)) (lit (25 / 100))))
       (fmul (of_int (cs_best_practices category_scores)) (lit (15 / 100))))
       (fmul (of_int (cs_pwa category_scores)) (lit (5 / 100)))"

definition weighted_overall_score :: "CategoryScores \<Rightarrow> int" where
  "weighted_overall_score category_scores = Math_round (weighted_sum category_scores)"

text \<open>
  \<open>runComprehensiveSiteAnalysis\<close>.  The five outcomes are what the five adapter promises
  settle to; \<open>now\<close> is \<open>new Date().toISOString()\<close>.  After the five \<open>catch\<close> handlers
  nothing inside the \<open>try\<close> block throws, so the function returns on every path.
\<close>

definition runComprehensiveSiteAnalysis ::
  "string \<Rightarrow> string \<Rightarrow>
   error + PerformanceReportContent AIOptimizedReport \<Rightarrow>
   error + AccessibilityReportContent AIOptimizedReport \<Rightarrow>
   error + SEOReportContent LighthouseReport \<Rightarrow>
   error + BestPracticesReportContent AIOptimizedReport \<Rightarrow>
   error + PWAReportContent AIOptimizedReport \<Rightarrow>
   error + ComprehensiveSiteAnalysis" where
  "runComprehensiveSiteAnalysis url now performanceOutcome accessibilityOutcome seoOutcome
       bestPracticesOutcome pwaOutcome =
     (let performanceResult = catch_null performanceOutcome;
          accessibilityResult = catch_null accessibilityOutcome;
          seoResult = catch_null seoOutcome;
          bestPracticesResult = catch_null bestPracticesOutcome;
          pwaResult = catch_null pwaOutcome;
          performanceContent = map_option (\<lambda>r. content (report r)) performanceResult;
          accessibilityContent = map_option (\<lambda>r. content (report r)) accessibilityResult;
          seoReport = map_option direct_report seoResult;
          bestPracticesContent = map_option (\<lambda>r. content (report r)) bestPracticesResult;
          pwaContent = map_option (\<lambda>r. content (report r)) pwaResult;
          category_scores =
            \<lparr> cs_performance = score_or_0 (map_option perf_score performanceContent),
              cs_accessibility = score_or_0 (map_option a11y_score accessibilityContent),
              cs_seo = score_or_0 (map_option seo_score seoReport),
              cs_best_practices = score_or_0 (map_option bp_score bestPracticesContent),
              cs_pwa = score_or_0 (map_option pwa_score pwaContent) \<rparr>;
          overall_score = weighted_overall_score category_scores;
          performance = content_or performanceContent createEmptyPerformanceReport;
          accessibility = content_or accessibilityContent createEmptyAccessibilityReport;
          seo = content_or seoReport createEmptySEOReport;
          best_practices = content_or bestPracticesContent createEmptyBestPracticesReport;
          pwa = content_or pwaContent createEmptyPWAReport;
          summary = calculateSummary performance accessibility seo best_practices pwa;
          cross_category_insights =
            generateCrossCategoryInsights performance accessibility seo best_practices pwa;
          prioritized_action_items =
            generatePrioritizedActionItems performance accessibility seo best_practices pwa
              cross_category_insights;
          quick_wins = generateQuickWins performance accessibility seo best_practices pwa
      in Inr \<lparr> csa_url = url,
               csa_analyzed_at = now,
               csa_overall_score = overall_score,
               csa_category_scores = category_scores,
               csa_performance = performance,
               csa_accessibility = accessibility,
               csa_seo = seo,
               csa_best_practices = best_practices,
               csa_pwa = pwa,
               csa_cross_category_insights = cross_category_insights,
               csa_prioritized_action_items = prioritized_action_items,
               csa_quick_wins = quick_wins,
               csa_summary = summary \<rparr>)"

section \<open>The score aggregator of the specification\<close>

text \<open>
  The specification computes the overall score in exact arithmetic: the weighted sum of the
  five category scores with the weights 0.30, 0.25, 0.25, 0.15 and 0.05, rounded to the
  nearest integer, ties away from zero.  \<open>spec_weighted_sum\<close> and \<open>spec_round\<close> are written
  from those words, to be compared with \<open>weighted_sum\<close> and \<open>Math_round\<close> of the source.
  \<open>valid_scores\<close> says that the five scores are integers from 0 to 100.
\<close>

definition spec_weighted_sum :: "CategoryScores \<Rightarrow> rat" where
  "spec_weighted_sum cs =
     3 / 10 * of_int (cs_performance cs) + 25 / 100 * of_int (cs_accessibility cs) +
     25 / 100 * of_int (cs_seo cs) + 15 / 100 * of_int (cs_best_practices cs) +
     5 / 100 * of_int (cs_pwa cs)"

definition spec_round :: "rat \<Rightarrow> int" where
  "spec_round x = (if 0 \<le> x then \<lfloor>x + 1 / 2\<rfloor> else \<lceil>x - 1 / 2\<rceil>)"

definition valid_scores :: "CategoryScores \<Rightarrow> bool" where
  "valid_scores cs \<longleftrightarrow>
     0 \<le> cs_performance cs \<and> cs_performance cs \<le> 100 \<and>
     0 \<le> cs_accessibility cs \<and> cs_accessibility cs \<le> 100 \<and>
     0 \<le> cs_seo cs \<and> cs_seo cs \<le> 100 \<and>
     0 \<le> cs_best_practices cs \<and> cs_best_practices cs \<le> 100 \<and>
     0 \<le> cs_pwa cs \<and> cs_pwa cs \<le> 100"

text \<open>The five terms of the weighted sum, and a binary64 sum taken left to right.\<close>

definition weighted_terms :: "CategoryScores \<Rightarrow> rat list" where
  "weighted_terms cs =
     [fmul (of_int (cs_performance cs)) (lit (3 / 10)),
      fmul (of_int (cs_accessibility cs)) (lit (25 / 100)),
      fmul (of_int (cs_seo cs)) (lit (25 / 100)),
      fmul (of_int (cs_best_practices cs)) (lit (15 / 100)),
      fmul (of_int (cs_pwa cs)) (lit (5 / 100))]"

fun fsum :: "rat list \<Rightarrow> rat" where
  "fsum [] = 0"
| "fsum (t # ts) = foldl fadd t ts"

section \<open>The audit buckets of the specification\<close>

text \<open>
  The specification sorts every audit entry into exactly one of five buckets, by the
  first test that holds: display mode manual; display mode informative; display mode not
  applicable; score equal to 1 (passed); anything else (failed).  \<open>spec_bucket\<close> is that
  classification, written from the specification's words, to be compared with the
  counters of the loop.
\<close>

datatype bucket = ManualBucket | InformativeBucket | NotApplicableBucket | PassedBucket | FailedBucket

definition spec_bucket :: "Audit \<Rightarrow> bucket" where
  "spec_bucket a =
     (if scoreDisplayMode a = ''manual'' then ManualBucket
      else if scoreDisplayMode a = ''informative'' then InformativeBucket
      else if scoreDisplayMode a = ''notApplicable'' then NotApplicableBucket
      else if audit_score a = Some 1 then PassedBucket
      else FailedBucket)"

text \<open>The audit entries the loop evaluates: those of the references that have an entry.\<close>

definition evaluated_audits :: "LighthouseResult \<Rightarrow> AuditRef list \<Rightarrow> (AuditRef \<times> Audit) list" where
  "evaluated_audits result refs =
     List.map_filter (\<lambda>ref. map_option (Pair ref) (audits result (ref_id ref))) refs"

definition count_bucket :: "bucket \<Rightarrow> (AuditRef \<times> Audit) list \<Rightarrow> nat" where
  "count_bucket b es = length (filter (\<lambda>e. spec_bucket (snd e) = b) es)"

definition issue_of :: "AuditRef \<times> Audit \<Rightarrow> PWAIssue" where
  "issue_of e =
     \<lparr> issue_id = ref_id (fst e),
       issue_title = audit_title (snd e),
       issue_description = audit_description (snd e),
       issue_score = audit_score (snd e),
       issue_severity = failed_audit_severity (audit_score (snd e)) \<rparr>"

text \<open>The issues in the order the loop collects them: the order of the references.\<close>

definition collected_issues :: "LighthouseResult \<Rightarrow> AuditRef list \<Rightarrow> PWAIssue list" where
  "collected_issues result refs =
     map issue_of (filter (\<lambda>e. spec_bucket (snd e) = FailedBucket) (evaluated_audits result refs))"

section \<open>The rule tables of the specification\<close>

text \<open>
  The specification describes the insight engine as a fixed, ordered table of rules, each
  a condition over the five reports with one literal insight, every rule evaluated on its
  own and the insights of the rules that hold emitted in table order.  \<open>fired\<close> is that
  evaluation; \<open>spec_insight_rules\<close> is the table, written from the specification's words,
  to be compared with the source function.
\<close>

definition fired :: "(bool \<times> 'a) list \<Rightarrow> 'a list" where
  "fired rules = map snd (filter fst rules)"

definition spec_insight_rules ::
  "PerformanceReportContent \<Rightarrow> AccessibilityReportContent \<Rightarrow> SEOReportContent \<Rightarrow>
   BestPracticesReportContent \<Rightarrow> PWAReportContent \<Rightarrow> (bool \<times> CrossCategoryInsight) list" where
  "spec_insight_rules performance accessibility seo best_practices pwa =
     [((\<exists>opp \<in> set (opportunities performance). opportunity_id opp = ''uses-optimized-images'') \<and>
       (\<exists>v \<in> set (violations accessibility). violation_id v = ''image-alt''),
       insight_large_images),
      ((case CLS (core_web_vitals performance) of None \<Rightarrow> False | Some c \<Rightarrow> c > lit (1 / 10)) \<and>
       (case seo_categories seo ''mobile'' of None \<Rightarrow> False | Some m \<Rightarrow> issues_count m > 0),
       insight_mobile),
      (\<not> is_installable (installability pwa) \<and> perf_score performance < 70 \<and>
       \<not> offline_support pwa,
       insight_pwa),
      ((\<exists>i \<in> set (bp_issues best_practices). bp_issue_id i = ''is-on-https'') \<and>
       (\<exists>i \<in> set (seo_issues seo). seo_issue_category i = ''crawlability''),
       insight_https),
      ((\<exists>v \<in> set (violations accessibility).
          violation_id v = ''heading-order'' \<or> violation_id v = ''document-title'') \<and>
       (\<exists>i \<in> set (seo_issues seo). seo_issue_category i = ''content''),
       insight_semantic)]"

text \<open>
  The quick-win extractor, in the specification's words: six rules, each the presence of
  one issue id in one category's list, with one literal quick win.
\<close>

definition spec_quick_win_rules ::
  "PerformanceReportContent \<Rightarrow> AccessibilityReportContent \<Rightarrow> SEOReportContent \<Rightarrow>
   (bool \<times> QuickWin) list" where
  "spec_quick_win_rules performance accessibility seo =
     [((\<exists>i \<in> set (seo_issues seo). seo_issue_id i = ''meta-description''), quick_win_meta),
      ((\<exists>v \<in> set (violations accessibility). violation_id v = ''image-alt''), quick_win_alt),
      ((\<exists>opp \<in> set (opportunities performance). opportunity_id opp = ''uses-text-compression''),
       quick_win_compression),
      ((\<exists>i \<in> set (seo_issues seo). seo_issue_id i = ''viewport''), quick_win_viewport),
      ((\<exists>i \<in> set (seo_issues seo). seo_issue_id i = ''document-title''), quick_win_title),
      ((\<exists>v \<in> set (violations accessibility). violation_id v = ''color-contrast''),
       quick_win_contrast)]"

section \<open>Example inputs\<close>

definition scenario_B_performance :: PerformanceReportContent where
  "scenario_B_performance =
     createEmptyPerformanceReport
       \<lparr> opportunities :=
           [\<lparr> opportunity_id = ''uses-optimized-images'', opportunity_impact = Serious \<rparr>] \<rparr>"

definition scenario_B_accessibility :: AccessibilityReportContent where
  "scenario_B_accessibility =
     createEmptyAccessibilityReport
       \<lparr> violations := [\<lparr> violation_id = ''image-alt'', violation_impact = Critical \<rparr>] \<rparr>"

definition scenario_C_best_practices :: BestPracticesReportContent where
  "scenario_C_best_practices =
     createEmptyBestPracticesReport
       \<lparr> bp_issues := [\<lparr> bp_issue_id = ''is-on-https'', bp_issue_severity = Critical \<rparr>] \<rparr>"

definition scenario_E_accessibility :: AccessibilityReportContent where
  "scenario_E_accessibility =
     createEmptyAccessibilityReport
       \<lparr> violations := [\<lparr> violation_id = ''color-contrast'', violation_impact = Serious \<rparr>] \<rparr>"

definition example_audits :: "string \<rightharpoonup> Audit" where
  "example_audits =
     [''viewport'' \<mapsto>
        \<lparr> audit_score = Some (3 / 4), scoreDisplayMode = ''numeric'',
          audit_title = ''Viewport'', audit_description = ''Has a viewport tag'' \<rparr>,
      ''service-worker'' \<mapsto>
        \<lparr> audit_score = Some 0, scoreDisplayMode = ''binary'',
          audit_title = ''Service worker'', audit_description = ''Registers a service worker'' \<rparr>,
      ''installable-manifest'' \<mapsto>
        \<lparr> audit_score = Some 1, scoreDisplayMode = ''binary'',
          audit_title = ''Manifest'', audit_description = ''Manifest is installable'' \<rparr>,
      ''pwa-cross-browser'' \<mapsto>
        \<lparr> audit_score = None, scoreDisplayMode = ''manual'',
          audit_title = ''Cross browser'', audit_description = ''Works across browsers'' \<rparr>]"

definition example_category :: Category where
  "example_category =
     \<lparr> category_score = Some (1 / 2),
       auditRefs = [\<lparr> ref_id = ''viewport'' \<rparr>, \<lparr> ref_id = ''service-worker'' \<rparr>,
                    \<lparr> ref_id = ''installable-manifest'' \<rparr>, \<lparr> ref_id = ''pwa-cross-browser'' \<rparr>,
                    \<lparr> ref_id = ''not-run'' \<rparr>] \<rparr>"

definition example_result :: LighthouseResult where
  "example_result = \<lparr> categories = [''pwa'' \<mapsto> example_category], audits = example_audits \<rparr>"


definition example_report :: "PWAReportContent AIOptimizedReport" where
  "example_report =
     \<lparr> report = \<lparr> category = ''pwa'',
                  content = pwa_report example_result example_category \<rparr> \<rparr>"

definition tie_scores :: CategoryScores where
  "tie_scores = \<lparr> cs_performance = 0, cs_accessibility = 0, cs_seo = 0,
                  cs_best_practices = 3, cs_pwa = 1 \<rparr>"

definition example_scores :: CategoryScores where
  "example_scores = \<lparr> cs_performance = 90, cs_accessibility = 80, cs_seo = 70,
                      cs_best_practices = 60, cs_pwa = 50 \<rparr>"

definition failure :: "error + 'a" where
  "failure = Inl (Error ''Lighthouse audit failed'')"

definition scenario_D_performance :: "error + PerformanceReportContent AIOptimizedReport" where
  "scenario_D_performance =
     Inr \<lparr> report = \<lparr> category = ''performance'',
                      content = createEmptyPerformanceReport\<lparr> perf_score := 90 \<rparr> \<rparr> \<rparr>"

definition example_url :: string where
  "example_url = ''https://example.com''"

definition example_now :: string where
  "example_now = ''2025-01-01T00:00:00.000Z''"

section \<open>Facts about the number model\<close>

lemma lit_half: "lit (1 / 2) = 1 / 2"
  by code_simp

lemma lit_0_7: "lit (7 / 10) = 3152519739159347 / 4503599627370496"
  by code_simp

lemma lit_0_1_pos: "0 < lit (1 / 10)"
  by code_simp

lemma bitlen_1: "bitlen (Suc 0) = Suc 0"
  by (simp add: bitlen.simps)

lemma ilog2_half_one:
  assumes "1 / 2 < q" "q < 1"
  shows "ilog2 q = - 1"
proof -
  have "1 < 1 / q" "1 / q < 2" using assms by (auto simp: field_simps)
  then have "\<lceil>1 / q\<rceil> = 2" by (simp add: ceiling_eq_iff)
  then show ?thesis using assms by (simp add: ilog2_def bitlen_1)
qed

lemma double_above_lit_0_7:
  assumes d: "fl s = s" and lt: "lit (7 / 10) < s"
  shows "7 / 10 < s"
proof (rule ccontr)
  assume "\<not> 7 / 10 < s"
  then have le: "s \<le> 7 / 10" by simp
  have gt: "3152519739159347 / 4503599627370496 < s" using lt by (simp add: lit_0_7)
  then have s_pos: "0 < s" and s_half: "1 / 2 < s" and s1: "s < 1" using le by auto
  have e: "ilog2 s = - 1" using ilog2_half_one [OF s_half s1] .
  have a: "\<bar>s\<bar> = s" using s_pos by simp
  have p: "pow2 (- 53) = 1 / 9007199254740992" by (simp add: pow2_def)
  have "s = of_int (round_ties_even (s * 9007199254740992)) / 9007199254740992"
    using d s_pos by (simp add: fl_def a e p Let_def)
  then obtain m :: int where m: "s = of_int m / 9007199254740992" by blast
  have "(6305039478318694 :: rat) < of_int m" using gt by (simp add: m field_simps)
  then have "6305039478318694 < m" by linarith
  moreover have "of_int m \<le> (6305039478318694 :: rat) + 2 / 5" using le by (simp add: m field_simps)
  then have "m \<le> 6305039478318694" by linarith
  ultimately show False by simp
qed

lemma fl_5_8: "fl (5 / 8) = 5 / 8"
  by code_simp

lemma lit_weights:
  "lit (3 / 10) = 5404319552844595 / 18014398509481984"
  "lit (25 / 100) = 1 / 4"
  "lit (15 / 100) = 5404319552844595 / 36028797018963968"
  "lit (5 / 100) = 3602879701896397 / 72057594037927936"
  by code_simp+

lemma weights_sum_binary64:
  "fadd (fadd (fadd (fadd (lit (3 / 10)) (lit (25 / 100))) (lit (25 / 100))) (lit (15 / 100)))
     (lit (5 / 100)) = 1"
  by code_simp

lemma round_ties_even_error: "\<bar>of_int (round_ties_even x) - x\<bar> \<le> 1 / 2"
proof -
  have "of_int \<lfloor>x\<rfloor> \<le> x" "x < of_int \<lfloor>x\<rfloor> + 1" by linarith+
  then show ?thesis
    by (auto simp: round_ties_even_def Let_def)
qed

lemma round_ties_even_nonneg: "0 \<le> x \<Longrightarrow> 0 \<le> round_ties_even x"
  by (auto simp: round_ties_even_def Let_def)

lemma pow2_pos: "0 < pow2 e"
  by (simp add: pow2_def)

lemma bitlen_le: "n < 2 ^ k \<Longrightarrow> bitlen n \<le> k"
proof (induction k arbitrary: n)
  case 0
  then show ?case by (simp add: bitlen.simps)
next
  case (Suc k)
  show ?case
  proof (cases "n = 0")
    case True
    then show ?thesis by (simp add: bitlen.simps)
  next
    case False
    have "n div 2 < 2 ^ k" using Suc.prems by simp
    then have "bitlen (n div 2) \<le> k" by (rule Suc.IH)
    then show ?thesis using False by (subst bitlen.simps) simp
  qed
qed

lemma ilog2_le_6:
  assumes "0 < q" "q < 128"
  shows "ilog2 q \<le> 6"
proof (cases "1 \<le> q")
  case True
  have "\<lfloor>q\<rfloor> < 128" using assms by linarith
  then have "nat \<lfloor>q\<rfloor> < 128" by linarith
  then have "nat \<lfloor>q\<rfloor> < 2 ^ 7" by simp
  then have "bitlen (nat \<lfloor>q\<rfloor>) \<le> 7" by (rule bitlen_le)
  then show ?thesis using True by (simp add: ilog2_def)
next
  case False
  then show ?thesis by (simp add: ilog2_def)
qed

lemma pow2_small:
  assumes "e \<le> - 46"
  shows "pow2 e \<le> 1 / 2 ^ 46"
proof -
  have "(2 :: rat) ^ 46 \<le> 2 ^ nat (- e)"
    by (rule power_increasing) (use assms in auto)
  then have "1 / (2 :: rat) ^ nat (- e) \<le> 1 / 2 ^ 46"
    by (intro divide_left_mono) simp_all
  then show ?thesis using assms by (simp add: pow2_def)
qed

lemma fl_nonneg: "0 \<le> q \<Longrightarrow> 0 \<le> fl q"
  using pow2_pos round_ties_even_nonneg
  by (simp add: fl_def Let_def less_imp_le)

lemma fl_error:
  assumes "0 \<le> q" "q < 128"
  shows "\<bar>fl q - q\<bar> \<le> 1 / 2 ^ 47"
proof (cases "q = 0")
  case True
  then show ?thesis by (simp add: fl_def)
next
  case False
  then have pos: "0 < q" using assms by simp
  define e where "e = ilog2 q - 52"
  define x where "x = q / pow2 e"
  have p: "0 < pow2 e" by (rule pow2_pos)
  have e: "e \<le> - 46" using ilog2_le_6 [OF pos assms(2)] by (simp add: e_def)
  have f: "fl q = of_int (round_ties_even x) * pow2 e"
    using pos by (simp add: fl_def Let_def e_def x_def)
  have q: "q = x * pow2 e" using p by (simp add: x_def)
  have "fl q - q = (of_int (round_ties_even x) - x) * pow2 e"
    by (simp add: f algebra_simps) (simp add: q [symmetric])
  then have "\<bar>fl q - q\<bar> = \<bar>of_int (round_ties_even x) - x\<bar> * pow2 e"
    using p by (simp add: abs_mult)
  also have "\<dots> \<le> 1 / 2 * pow2 e"
    using round_ties_even_error [of x] p by (intro mult_right_mono) simp_all
  also have "\<dots> \<le> 1 / 2 * (1 / 2 ^ 46)"
    using pow2_small [OF e] by simp
  finally show ?thesis by simp
qed


lemma fl_bounds:
  assumes "0 \<le> q" "q < 128"
  shows "q - 1 / 140737488355328 \<le> fl q \<and> fl q \<le> q + 1 / 140737488355328 \<and> 0 \<le> fl q"
proof -
  have "\<bar>fl q - q\<bar> \<le> 1 / 140737488355328"
    using fl_error [OF assms] by simp
  then show ?thesis using fl_nonneg [OF assms(1)] by linarith
qed

lemma weighted_sum_bounds:
  assumes "valid_scores cs"
  shows "spec_weighted_sum cs - 1 / 8796093022208 \<le> weighted_sum cs \<and>
         weighted_sum cs \<le> spec_weighted_sum cs + 1 / 8796093022208 \<and>
         0 \<le> weighted_sum cs"
proof -
  define P where "P = (of_int (cs_performance cs) :: rat)"
  define A where "A = (of_int (cs_accessibility cs) :: rat)"
  define S where "S = (of_int (cs_seo cs) :: rat)"
  define B where "B = (of_int (cs_best_practices cs) :: rat)"
  define W where "W = (of_int (cs_pwa cs) :: rat)"
  have r: "0 \<le> P" "P \<le> 100" "0 \<le> A" "A \<le> 100" "0 \<le> S" "S \<le> 100"
    "0 \<le> B" "B \<le> 100" "0 \<le> W" "W \<le> 100"
    using assms by (simp_all add: valid_scores_def P_def A_def S_def B_def W_def)
  define x1 where "x1 = fl (P * (5404319552844595 / 18014398509481984))"
  define x2 where "x2 = fl (A * (1 / 4))"
  define x3 where "x3 = fl (S * (1 / 4))"
  define x4 where "x4 = fl (B * (5404319552844595 / 36028797018963968))"
  define x5 where "x5 = fl (W * (3602879701896397 / 72057594037927936))"
  define s1 where "s1 = fl (x1 + x2)"
  define s2 where "s2 = fl (s1 + x3)"
  define s3 where "s3 = fl (s2 + x4)"
  define s4 where "s4 = fl (s3 + x5)"
  have ws: "weighted_sum cs = s4"
    unfolding weighted_sum_def fadd_def fmul_def lit_weights
      s4_def s3_def s2_def s1_def x1_def x2_def x3_def x4_def x5_def
      P_def A_def S_def B_def W_def
    by (rule refl)
  have sp: "spec_weighted_sum cs = 3 / 10 * P + 25 / 100 * A + 25 / 100 * S + 15 / 100 * B + 5 / 100 * W"
    unfolding spec_weighted_sum_def P_def A_def S_def B_def W_def by (rule refl)
  have b1: "P * (5404319552844595 / 18014398509481984) - 1 / 140737488355328 \<le> x1 \<and>
      x1 \<le> P * (5404319552844595 / 18014398509481984) + 1 / 140737488355328 \<and> 0 \<le> x1"
    unfolding x1_def by (rule fl_bounds) (use r in linarith)+
  have b2: "A * (1 / 4) - 1 / 140737488355328 \<le> x2 \<and>
      x2 \<le> A * (1 / 4) + 1 / 140737488355328 \<and> 0 \<le> x2"
    unfolding x2_def by (rule fl_bounds) (use r in linarith)+
  have b3: "S * (1 / 4) - 1 / 140737488355328 \<le> x3 \<and>
      x3 \<le> S * (1 / 4) + 1 / 140737488355328 \<and> 0 \<le> x3"
    unfolding x3_def by (rule fl_bounds) (use r in linarith)+
  have b4: "B * (5404319552844595 / 36028797018963968) - 1 / 140737488355328 \<le> x4 \<and>
      x4 \<le> B * (5404319552844595 / 36028797018963968) + 1 / 140737488355328 \<and> 0 \<le> x4"
    unfolding x4_def by (rule fl_bounds) (use r in linarith)+
  have b5: "W * (3602879701896397 / 72057594037927936) - 1 / 140737488355328 \<le> x5 \<and>
      x5 \<le> W * (3602879701896397 / 72057594037927936) + 1 / 140737488355328 \<and> 0 \<le> x5"
    unfolding x5_def by (rule fl_bounds) (use r in linarith)+
  have c1: "(x1 + x2) - 1 / 140737488355328 \<le> s1 \<and> s1 \<le> (x1 + x2) + 1 / 140737488355328 \<and> 0 \<le> s1"
    unfolding s1_def by (rule fl_bounds) (use r b1 b2 in linarith)+
  have c2: "(s1 + x3) - 1 / 140737488355328 \<le> s2 \<and> s2 \<le> (s1 + x3) + 1 / 140737488355328 \<and> 0 \<le> s2"
    unfolding s2_def by (rule fl_bounds) (use r b1 b2 b3 c1 in linarith)+
  have c3: "(s2 + x4) - 1 / 140737488355328 \<le> s3 \<and> s3 \<le> (s2 + x4) + 1 / 140737488355328 \<and> 0 \<le> s3"
    unfolding s3_def by (rule fl_bounds) (use r b1 b2 b3 b4 c1 c2 in linarith)+
  have c4: "(s3 + x5) - 1 / 140737488355328 \<le> s4 \<and> s4 \<le> (s3 + x5) + 1 / 140737488355328 \<and> 0 \<le> s4"
    unfolding s4_def by (rule fl_bounds) (use r b1 b2 b3 b4 b5 c1 c2 c3 in linarith)+
  show ?thesis
    unfolding ws sp using r b1 b2 b3 b4 b5 c1 c2 c3 c4 by linarith
qed


lemma spec_weighted_sum_twentieths:
  "spec_weighted_sum cs =
     of_int (6 * cs_performance cs + 5 * cs_accessibility cs + 5 * cs_seo cs +
             3 * cs_best_practices cs + cs_pwa cs) / 20"
  by (simp add: spec_weighted_sum_def field_simps)

lemma spec_weighted_sum_range:
  assumes "valid_scores cs"
  shows "0 \<le> spec_weighted_sum cs \<and> spec_weighted_sum cs \<le> 100"
proof -
  define P where "P = (of_int (cs_performance cs) :: rat)"
  define A where "A = (of_int (cs_accessibility cs) :: rat)"
  define S where "S = (of_int (cs_seo cs) :: rat)"
  define B where "B = (of_int (cs_best_practices cs) :: rat)"
  define W where "W = (of_int (cs_pwa cs) :: rat)"
  have r: "0 \<le> P" "P \<le> 100" "0 \<le> A" "A \<le> 100" "0 \<le> S" "S \<le> 100"
    "0 \<le> B" "B \<le> 100" "0 \<le> W" "W \<le> 100"
    using assms by (simp_all add: valid_scores_def P_def A_def S_def B_def W_def)
  have sp: "spec_weighted_sum cs = 3 / 10 * P + 25 / 100 * A + 25 / 100 * S + 15 / 100 * B + 5 / 100 * W"
    unfolding spec_weighted_sum_def P_def A_def S_def B_def W_def by (rule refl)
  show ?thesis unfolding sp using r by linarith
qed

lemma overall_score_cases:
  assumes "valid_scores cs"
  shows "(frac (spec_weighted_sum cs) \<noteq> 1 / 2 \<longrightarrow>
            weighted_overall_score cs = spec_round (spec_weighted_sum cs)) \<and>
         (weighted_overall_score cs = spec_round (spec_weighted_sum cs) \<or>
          weighted_overall_score cs = spec_round (spec_weighted_sum cs) - 1)"
proof -
  define E where "E = spec_weighted_sum cs"
  define M where "M = weighted_sum cs"
  define k where "k = 6 * cs_performance cs + 5 * cs_accessibility cs + 5 * cs_seo cs +
             3 * cs_best_practices cs + cs_pwa cs"
  define n where "n = \<lfloor>E + 1 / 2\<rfloor>"
  have Ek: "E = of_int k / 20"
    unfolding E_def k_def by (rule spec_weighted_sum_twentieths)
  have E0: "0 \<le> E" using spec_weighted_sum_range [OF assms] by (simp add: E_def)
  have sr: "spec_round (spec_weighted_sum cs) = n"
    using E0 by (simp add: spec_round_def E_def n_def)
  have os: "weighted_overall_score cs = \<lfloor>M + 1 / 2\<rfloor>"
    by (simp add: weighted_overall_score_def Math_round_def M_def)
  have m: "E - 1 / 8796093022208 \<le> M" "M \<le> E + 1 / 8796093022208"
    using weighted_sum_bounds [OF assms] by (simp_all add: E_def M_def)
  have n1: "of_int n \<le> E + 1 / 2" "E + 1 / 2 < of_int n + 1"
    unfolding n_def by linarith+
  have "(of_int (20 * n) :: rat) \<le> of_int (k + 10)"
    using n1(1) by (simp add: Ek)
  then have k1: "20 * n \<le> k + 10" by (simp only: of_int_le_iff)
  have "(of_int (k + 10) :: rat) < of_int (20 * n + 20)"
    using n1(2) by (simp add: Ek)
  then have k2: "k + 10 < 20 * n + 20" by (simp only: of_int_less_iff)
  show ?thesis
  proof (cases "k + 10 = 20 * n")
    case True
    then have "(of_int (k + 10) :: rat) = of_int (20 * n)" by simp
    then have En: "E = of_int n - 1 / 2" by (simp add: Ek)
    have "\<lfloor>E\<rfloor> = n - 1" unfolding En by (rule floor_unique) simp_all
    then have tie: "frac E = 1 / 2" by (simp add: frac_def En)
    have lo: "of_int (n - 1) \<le> M + 1 / 2" using m(1) En by simp
    have hi: "M + 1 / 2 < of_int n + 1" using m(2) En by simp
    have "\<lfloor>M + 1 / 2\<rfloor> = n \<or> \<lfloor>M + 1 / 2\<rfloor> = n - 1"
    proof (cases "of_int n \<le> M + 1 / 2")
      case True
      then have "\<lfloor>M + 1 / 2\<rfloor> = n" using hi by (intro floor_unique)
      then show ?thesis by simp
    next
      case False
      then have "M + 1 / 2 < of_int (n - 1) + 1" by simp
      then have "\<lfloor>M + 1 / 2\<rfloor> = n - 1" using lo by (intro floor_unique)
      then show ?thesis by simp
    qed
    then show ?thesis using tie by (simp add: os sr E_def)
  next
    case False
    then have "20 * n + 1 \<le> k + 10" "k + 10 \<le> 20 * n + 19" using k1 k2 by linarith+
    then have "(of_int (20 * n + 1) :: rat) \<le> of_int (k + 10)"
      "(of_int (k + 10) :: rat) \<le> of_int (20 * n + 19)"
      by (simp_all only: of_int_le_iff)
    then have e: "of_int n + 1 / 20 \<le> E + 1 / 2" "E + 1 / 2 \<le> of_int n + 19 / 20"
      by (simp_all add: Ek)
    have "of_int n \<le> M + 1 / 2" using e(1) m(1) by linarith
    moreover have "M + 1 / 2 < of_int n + 1" using e(2) m(2) by linarith
    ultimately have "\<lfloor>M + 1 / 2\<rfloor> = n" by (rule floor_unique)
    then show ?thesis by (simp add: os sr)
  qed
qed

lemma overall_score_range:
  assumes "valid_scores cs"
  shows "0 \<le> weighted_overall_score cs \<and> weighted_overall_score cs \<le> 100"
proof -
  define M where "M = weighted_sum cs"
  have m: "0 \<le> M" "M \<le> 100 + 1 / 8796093022208"
    using weighted_sum_bounds [OF assms] spec_weighted_sum_range [OF assms]
    by (simp_all add: M_def)
  have "\<lfloor>M + 1 / 2\<rfloor> < 101"
    unfolding floor_less_iff using m(2) by simp
  moreover have "0 \<le> \<lfloor>M + 1 / 2\<rfloor>"
    using m(1) by simp
  ultimately show ?thesis
    by (simp add: weighted_overall_score_def Math_round_def M_def)
qed

lemma pow2_powi: "pow2 e = 2 powi e"
  by (simp add: pow2_def power_int_def power_one_over inverse_eq_divide)

lemma pow2_add: "pow2 (i + j) = pow2 i * pow2 j"
  by (simp add: pow2_powi power_int_add)

lemma pow2_nat: "pow2 (int n) = 2 ^ n"
  by (simp add: pow2_def)

lemma pow2_neg_nat: "pow2 (- int n) = 1 / 2 ^ n"
  by (simp add: pow2_powi power_int_minus inverse_eq_divide)

lemma pow2_mono: "i \<le> j \<Longrightarrow> pow2 i \<le> pow2 j"
  by (simp add: pow2_powi power_int_increasing)

lemma pow2_strict_mono: "i < j \<Longrightarrow> pow2 i < pow2 j"
  by (simp add: pow2_powi power_int_strict_increasing)

lemma bitlen_gt: "2 ^ k \<le> n \<Longrightarrow> k < bitlen n"
proof (induction k arbitrary: n)
  case 0
  then show ?case by (subst bitlen.simps) simp
next
  case (Suc k)
  then have "2 ^ k \<le> n div 2" by simp
  then have "k < bitlen (n div 2)" by (rule Suc.IH)
  moreover have "0 < (2 :: nat) ^ Suc k" by simp
  then have "n \<noteq> 0" using Suc.prems by linarith
  ultimately show ?case by (subst bitlen.simps) simp
qed

lemma bitlen_bounds:
  assumes "0 < n"
  shows "2 ^ (bitlen n - 1) \<le> n \<and> n < 2 ^ bitlen n \<and> 0 < bitlen n"
proof -
  have p: "0 < bitlen n" using assms by (subst bitlen.simps) simp
  have "\<not> 2 ^ bitlen n \<le> n" using bitlen_gt [of "bitlen n" n] by auto
  then have u: "n < 2 ^ bitlen n" by simp
  have "\<not> n < 2 ^ (bitlen n - 1)"
    using bitlen_le [of n "bitlen n - 1"] p by auto
  then show ?thesis using u p by simp
qed

lemma bitlen_eq:
  assumes "2 ^ k \<le> n" "n < 2 ^ Suc k"
  shows "bitlen n = Suc k"
  using bitlen_gt [OF assms(1)] bitlen_le [OF assms(2)] by simp


lemma rat_pow_le: "2 ^ k \<le> n \<Longrightarrow> (2 :: rat) ^ k \<le> of_nat n"
  by simp

lemma rat_lt_pow: "n < 2 ^ k \<Longrightarrow> (of_nat n :: rat) + 1 \<le> 2 ^ k"
proof -
  assume "n < 2 ^ k"
  then have "Suc n \<le> 2 ^ k" by simp
  then have "(of_nat (Suc n) :: rat) \<le> 2 ^ k"
    by (simp only: of_nat_le_numeral_power_cancel_iff)
  then show ?thesis by simp
qed

lemma ilog2_bounds:
  assumes "0 < q"
  shows "pow2 (ilog2 q) \<le> q \<and> q < pow2 (ilog2 q + 1)"
proof (cases "1 \<le> q")
  case True
  define n where "n = nat \<lfloor>q\<rfloor>"
  have n: "0 < n" "of_nat n \<le> q" "q < of_nat n + 1"
    using True by (simp_all add: n_def) linarith+
  note b = bitlen_bounds [OF n(1)]
  have i: "ilog2 q = int (bitlen n - 1)"
    using True b by (simp add: ilog2_def n_def of_nat_diff)
  have "(2 :: rat) ^ (bitlen n - 1) \<le> of_nat n"
    using b by (intro rat_pow_le) simp
  then have "(2 :: rat) ^ (bitlen n - 1) \<le> q"
    using n(2) by (rule order_trans)
  then have lo: "pow2 (ilog2 q) \<le> q"
    by (simp only: i pow2_nat)
  have "(of_nat n :: rat) + 1 \<le> 2 ^ bitlen n"
    using b by (intro rat_lt_pow) simp
  then have "q < 2 ^ bitlen n" using n(3) by linarith
  moreover have "ilog2 q + 1 = int (bitlen n)" using b by (simp add: i)
  ultimately have "q < pow2 (ilog2 q + 1)" by (simp add: pow2_nat)
  then show ?thesis using lo by simp
next
  case False
  define c where "c = \<lceil>1 / q\<rceil>"
  define m where "m = nat (c - 1)"
  have r: "1 < 1 / q" using assms False by simp
  have c: "1 / q \<le> of_int c" "of_int c - 1 < 1 / q"
    unfolding c_def by linarith+
  have "1 < c" using r c(1) by linarith
  then have m: "0 < m" "int m = c - 1" by (simp_all add: m_def)
  note b = bitlen_bounds [OF m(1)]
  have i: "ilog2 q = - int (bitlen m)"
    using False by (simp add: ilog2_def m_def c_def)
  have mc: "(of_nat m :: rat) = of_int c - 1"
    using m(2) by (metis of_int_of_nat_eq of_int_diff of_int_1)
  have "(of_nat m :: rat) + 1 \<le> 2 ^ bitlen m"
    using b by (intro rat_lt_pow) simp
  then have "1 / q \<le> 2 ^ bitlen m" using c(1) mc by linarith
  then have "1 \<le> 2 ^ bitlen m * q" using assms by (simp add: field_simps)
  then have lo: "pow2 (ilog2 q) \<le> q"
    by (simp add: i pow2_neg_nat field_simps)
  have "(2 :: rat) ^ (bitlen m - 1) \<le> of_nat m"
    using b by (intro rat_pow_le) simp
  then have "2 ^ (bitlen m - 1) < 1 / q" using c(2) mc by linarith
  then have "2 ^ (bitlen m - 1) * q < 1" using assms by (simp add: field_simps)
  moreover have "ilog2 q + 1 = - int (bitlen m - 1)" using b by (simp add: i)
  ultimately have "q < pow2 (ilog2 q + 1)"
    by (simp add: pow2_neg_nat field_simps)
  then show ?thesis using lo by simp
qed

lemma ilog2_unique:
  assumes "0 < q" "pow2 k \<le> q" "q < pow2 (k + 1)"
  shows "ilog2 q = k"
proof -
  note b = ilog2_bounds [OF assms(1)]
  have "pow2 k < pow2 (ilog2 q + 1)" using assms(2) b by linarith
  then have "\<not> ilog2 q + 1 \<le> k" using pow2_mono [of "ilog2 q + 1" k] by auto
  moreover have "pow2 (ilog2 q) < pow2 (k + 1)" using assms(3) b by linarith
  then have "\<not> k + 1 \<le> ilog2 q" using pow2_mono [of "k + 1" "ilog2 q"] by auto
  ultimately show ?thesis by simp
qed

lemma round_ties_even_of_int: "round_ties_even (of_int z) = z"
  by (simp add: round_ties_even_def)


lemma fl_idem: "fl (fl q) = fl q"
proof (cases "q = 0")
  case True
  then show ?thesis by (simp add: fl_def)
next
  case False
  define a where "a = \<bar>q\<bar>"
  define k where "k = ilog2 a"
  define e where "e = k - 52"
  define x where "x = q / pow2 e"
  define m where "m = round_ties_even x"
  define y where "y = of_int m * pow2 e"
  have a: "0 < a" using False by (simp add: a_def)
  have p: "0 < pow2 e" by (rule pow2_pos)
  have flq: "fl q = y"
    using False by (simp add: fl_def Let_def y_def m_def x_def e_def k_def a_def)
  note b = ilog2_bounds [OF a, folded k_def]
  have p52: "pow2 52 = 4503599627370496" "pow2 53 = 9007199254740992" "pow2 1 = 2"
    by (simp_all add: pow2_def)
  have k0: "pow2 k = 4503599627370496 * pow2 e"
    using pow2_add [of 52 e] by (simp add: e_def p52)
  have s53: "53 + e = k + 1" by (simp add: e_def)
  have k1: "pow2 (k + 1) = 9007199254740992 * pow2 e"
    using pow2_add [of 53 e] unfolding s53 p52 .
  have k2: "pow2 (k + 1 + 1) = 2 * (9007199254740992 * pow2 e)"
    using pow2_add [of 1 "k + 1"] by (simp add: p52 k1)
  have e1: "pow2 (e + 1) = 2 * pow2 e"
    using pow2_add [of 1 e] by (simp add: p52 add.commute)
  have ax: "\<bar>x\<bar> = a / pow2 e"
    using p by (simp add: x_def a_def abs_divide)
  have b2: "4503599627370496 * pow2 e \<le> a" "a < 9007199254740992 * pow2 e"
    using b unfolding k0 k1 by simp_all
  have x1: "4503599627370496 \<le> \<bar>x\<bar>"
    using b2(1) p by (simp add: ax field_simps)
  have x2: "\<bar>x\<bar> < 9007199254740992"
    using b2(2) p by (simp add: ax field_simps)
  have r: "\<bar>of_int m - x\<bar> \<le> 1 / 2"
    unfolding m_def by (rule round_ties_even_error)
  have "(4503599627370496 :: rat) - 1 / 2 \<le> \<bar>of_int m\<bar>" using r x1 by linarith
  then have "(4503599627370496 :: rat) - 1 / 2 \<le> of_int \<bar>m\<bar>" by simp
  then have m1: "4503599627370496 \<le> \<bar>m\<bar>" by linarith
  have "\<bar>of_int m\<bar> < (9007199254740992 :: rat) + 1 / 2" using r x2 by linarith
  then have "of_int \<bar>m\<bar> < (9007199254740992 :: rat) + 1 / 2" by simp
  then have m2: "\<bar>m\<bar> \<le> 9007199254740992" by linarith
  have y0: "y \<noteq> 0" using m1 p by (auto simp: y_def)
  have ay: "\<bar>y\<bar> = of_int \<bar>m\<bar> * pow2 e"
    using p by (simp add: y_def abs_mult)
  have ypos: "0 < \<bar>y\<bar>" using y0 by simp
  show ?thesis
  proof (cases "\<bar>m\<bar> = 9007199254740992")
    case True
    have ayk: "\<bar>y\<bar> = pow2 (k + 1)" by (simp add: ay True k1)
    have "\<bar>y\<bar> < pow2 (k + 1 + 1)" unfolding ayk by (rule pow2_strict_mono) simp
    then have i: "ilog2 \<bar>y\<bar> = k + 1"
      using ayk by (intro ilog2_unique ypos) simp_all
    have e': "ilog2 \<bar>y\<bar> - 52 = e + 1" by (simp add: i e_def)
    have "m = 9007199254740992 \<or> m = - 9007199254740992" using True by linarith
    then have "even m" by auto
    then obtain h where h: "m = 2 * h" by (elim evenE)
    have d: "y / pow2 (e + 1) = of_int h"
      using p by (simp add: y_def e1 h)
    have "fl y = of_int (round_ties_even (of_int h)) * pow2 (e + 1)"
      using y0 by (simp add: fl_def Let_def e' d)
    also have "\<dots> = of_int h * (2 * pow2 e)"
      by (simp only: round_ties_even_of_int e1)
    also have "\<dots> = y" by (simp add: y_def h)
    finally show ?thesis by (simp add: flq)
  next
    case False
    then have m3: "\<bar>m\<bar> + 1 \<le> 9007199254740992" using m2 by linarith
    have "(4503599627370496 :: rat) \<le> of_int \<bar>m\<bar>" using m1 by linarith
    then have lo: "pow2 k \<le> \<bar>y\<bar>"
      using p by (simp add: ay k0)
    have "of_int \<bar>m\<bar> < (9007199254740992 :: rat)" using m3 by linarith
    then have hi: "\<bar>y\<bar> < pow2 (k + 1)"
      using p by (simp add: ay k1)
    have i: "ilog2 \<bar>y\<bar> = k" using ypos lo hi by (rule ilog2_unique)
    have d: "y / pow2 e = of_int m" using p by (simp add: y_def)
    have "fl y = of_int (round_ties_even (of_int m)) * pow2 e"
      using y0 by (simp add: fl_def Let_def i e_def [symmetric] d)
    then have "fl y = y" by (simp only: round_ties_even_of_int y_def)
    then show ?thesis by (simp add: flq)
  qed
qed

lemma fadd_zero_right: "fadd (fl q) 0 = fl q"
  by (simp add: fadd_def fl_idem)

lemma fadd_zero_left: "fadd 0 (fl q) = fl q"
  by (simp add: fadd_def fl_idem)


lemma weighted_sum_fsum: "weighted_sum cs = fsum (weighted_terms cs)"
  by (simp add: weighted_sum_def weighted_terms_def)

lemma weighted_terms_binary64: "\<forall>t \<in> set (weighted_terms cs). fl t = t"
  by (simp add: weighted_terms_def fmul_def fl_idem)

lemma foldl_fadd_drop_zeros:
  assumes "fl a = a" "\<forall>t \<in> set ts. fl t = t"
  shows "foldl fadd a (filter (\<lambda>t. t \<noteq> 0) ts) = foldl fadd a ts"
  using assms
proof (induction ts arbitrary: a)
  case Nil
  show ?case by simp
next
  case (Cons t ts)
  show ?case
  proof (cases "t = 0")
    case True
    have "fadd a 0 = a" using Cons.prems(1) by (simp add: fadd_def)
    then show ?thesis using Cons True by simp
  next
    case False
    have "fl (fadd a t) = fadd a t" by (simp add: fadd_def fl_idem)
    then show ?thesis using Cons False by simp
  qed
qed

lemma foldl_fadd_zero:
  assumes "\<forall>t \<in> set ts. fl t = t"
  shows "foldl fadd 0 ts = fsum ts"
proof (cases ts)
  case Nil
  then show ?thesis by simp
next
  case (Cons u us)
  have "fadd 0 u = u" using assms Cons by (simp add: fadd_def)
  then show ?thesis using Cons by simp
qed

lemma fsum_drop_zeros:
  assumes "\<forall>t \<in> set ts. fl t = t"
  shows "fsum (filter (\<lambda>t. t \<noteq> 0) ts) = fsum ts"
  using assms
proof (induction ts)
  case Nil
  show ?case by simp
next
  case (Cons t ts)
  show ?case
  proof (cases "t = 0")
    case True
    have "fsum (filter (\<lambda>t. t \<noteq> 0) (t # ts)) = fsum ts"
      using Cons True by simp
    also have "\<dots> = foldl fadd 0 ts"
      using Cons.prems by (simp add: foldl_fadd_zero)
    finally show ?thesis using True by simp
  next
    case False
    have "fl t = t" using Cons.prems by simp
    then show ?thesis
      using False Cons.prems by (simp add: foldl_fadd_drop_zeros)
  qed
qed

lemma weighted_sum_nonzero_terms:
  "weighted_sum cs = fsum (filter (\<lambda>t. t \<noteq> 0) (weighted_terms cs))"
  by (simp only: weighted_sum_fsum fsum_drop_zeros [OF weighted_terms_binary64])

section \<open>Facts about arrays and rule tables\<close>

lemma some_iff: "some p xs \<longleftrightarrow> (\<exists>x \<in> set xs. p x)"
  by (simp add: some_def list_ex_iff)

lemma fired_Cons: "fired ((c, x) # rs) = (if c then x # fired rs else fired rs)"
  by (simp add: fired_def)

lemma fired_Nil: "fired [] = []"
  by (simp add: fired_def)

lemma length_fired: "length (fired rs) \<le> length rs"
  by (simp add: fired_def)

lemma push_if_5:
  "push_if c5 i5 (push_if c4 i4 (push_if c3 i3 (push_if c2 i2 (push_if c1 i1 [])))) =
   fired [(c1, i1), (c2, i2), (c3, i3), (c4, i4), (c5, i5)]"
  by (simp add: push_if_def fired_def)

lemma truthy_and_gt_case:
  "0 \<le> c \<Longrightarrow> truthy_and_gt x c \<longleftrightarrow> (case x of None \<Rightarrow> False | Some v \<Rightarrow> v > c)"
  by (auto simp: truthy_and_gt_def split: option.splits)

subsection \<open>Sorting\<close>

lemma insert_cmp_insort_key:
  fixes k :: "'a \<Rightarrow> int"
  assumes "\<And>a b. cmp a b \<le> 0 \<longleftrightarrow> k a \<le> k b"
  shows "insert_cmp cmp x ys = insort_key k x ys"
  by (induction ys) (simp_all add: assms)

lemma array_sort_sort_key:
  fixes k :: "'a \<Rightarrow> int"
  assumes "\<And>a b. cmp a b \<le> 0 \<longleftrightarrow> k a \<le> k b"
  shows "array_sort cmp xs = sort_key k xs"
proof -
  have "insert_cmp cmp = insort_key k"
    by (intro ext) (rule insert_cmp_insort_key [OF assms])
  then show ?thesis by (simp add: array_sort_def sort_key_def)
qed

lemma array_sort_roi: "array_sort roi_cmp xs = sort_key (\<lambda>i. - roi_score i) xs"
  by (rule array_sort_sort_key) (simp add: roi_cmp_def)

lemma array_sort_roi_sorted: "sorted_wrt (\<ge>) (map roi_score (array_sort roi_cmp xs))"
proof -
  have "sorted (map (\<lambda>i. - roi_score i) (array_sort roi_cmp xs))"
    by (simp add: array_sort_roi)
  then show ?thesis by (simp add: sorted_wrt_map)
qed

lemma array_sort_roi_stable:
  "filter (\<lambda>i. roi_score i = k) (array_sort roi_cmp xs) = filter (\<lambda>i. roi_score i = k) xs"
proof -
  have e: "(\<lambda>i. roi_score i = k) = (\<lambda>i :: PrioritizedActionItem. - roi_score i = - k)"
    by auto
  show ?thesis unfolding e array_sort_roi by (rule sort_key_stable)
qed

lemma array_sort_roi_mset: "mset (array_sort roi_cmp xs) = mset xs"
  by (simp add: array_sort_roi)

lemma array_sort_roi_length: "length (array_sort roi_cmp xs) = length xs"
  by (simp add: array_sort_roi)

lemma array_sort_roi_Cons:
  assumes "\<forall>y \<in> set xs. roi_score y \<le> roi_score x"
  shows "array_sort roi_cmp (x # xs) = x # array_sort roi_cmp xs"
proof -
  have "\<forall>y \<in> set (sort_key (\<lambda>i. - roi_score i) xs). - roi_score x \<le> - roi_score y"
    using assms by simp
  then show ?thesis
    unfolding array_sort_roi by (simp add: insort_is_Cons)
qed

subsection \<open>Renumbering\<close>

lemma update_ranks_length: "length (update_ranks xs) = length xs"
  by (simp add: update_ranks_def)

lemma renumber_rank:
  "map rank (map (\<lambda>(index, item). item\<lparr> rank := index + 1 \<rparr>) (enumerate n xs)) =
   [Suc n ..< Suc (n + length xs)]"
  by (induction xs arbitrary: n) (simp_all add: upt_conv_Cons del: upt_Suc)

lemma renumber_roi:
  "map roi_score (map (\<lambda>(index, item). item\<lparr> rank := index + 1 \<rparr>) (enumerate n xs)) =
   map roi_score xs"
  by (induction xs arbitrary: n) simp_all

lemma renumber_zero:
  "map (rank_update (\<lambda>_. 0)) (map (\<lambda>(index, item). item\<lparr> rank := index + 1 \<rparr>) (enumerate n xs)) =
   map (rank_update (\<lambda>_. 0)) xs"
  by (induction xs arbitrary: n) simp_all

lemma update_ranks_rank: "map rank (update_ranks xs) = [1 ..< Suc (length xs)]"
  unfolding update_ranks_def renumber_rank by (simp del: upt_Suc)

lemma update_ranks_roi: "map roi_score (update_ranks xs) = map roi_score xs"
  unfolding update_ranks_def by (rule renumber_roi)

lemma update_ranks_zero:
  "map (rank_update (\<lambda>_. 0)) (update_ranks xs) = map (rank_update (\<lambda>_. 0)) xs"
  unfolding update_ranks_def by (rule renumber_zero)

lemma update_ranks_Cons_hd: "hd (update_ranks (x # xs)) = x\<lparr> rank := 1 \<rparr>"
  by (simp add: update_ranks_def)

lemma sort_rank_slice_length: "length (sort_rank_slice xs) \<le> 10"
  by (simp add: sort_rank_slice_def slice0_def)

lemma sort_rank_slice_rank:
  "map rank (sort_rank_slice xs) = [1 ..< Suc (length (sort_rank_slice xs))]"
proof -
  let ?n = "length xs"
  have "map rank (sort_rank_slice xs) = take 10 [1 ..< Suc ?n]"
    by (simp only: sort_rank_slice_def slice0_def take_map [symmetric] update_ranks_rank
        array_sort_roi_length)
  also have "\<dots> = [1 ..< Suc (min 10 ?n)]"
    by (cases "10 \<le> ?n") (simp_all add: min_def take_upt del: upt_Suc)
  also have "min 10 ?n = length (sort_rank_slice xs)"
    by (simp add: sort_rank_slice_def slice0_def update_ranks_length array_sort_roi_length
        min.commute)
  finally show ?thesis .
qed

lemma sort_rank_slice_roi:
  "map roi_score (sort_rank_slice xs) = take 10 (map roi_score (array_sort roi_cmp xs))"
  by (simp only: sort_rank_slice_def slice0_def take_map [symmetric] update_ranks_roi)

lemma sort_rank_slice_sorted: "sorted_wrt (\<ge>) (map roi_score (sort_rank_slice xs))"
  unfolding sort_rank_slice_roi using array_sort_roi_sorted [of xs]
  by (rule sorted_wrt_take)

lemma sort_rank_slice_zero:
  "map (rank_update (\<lambda>_. 0)) (sort_rank_slice xs) =
   take 10 (map (rank_update (\<lambda>_. 0)) (array_sort roi_cmp xs))"
  by (simp only: sort_rank_slice_def slice0_def take_map [symmetric] update_ranks_zero)

lemma push_if_Cons: "push_if c x (a # xs) = a # push_if c x xs"
  by (simp add: push_if_def)

lemma push_if_True_Nil: "push_if True x [] = [x]"
  by (simp add: push_if_def)

lemma push_if_all: "P x \<Longrightarrow> \<forall>y \<in> set xs. P y \<Longrightarrow> \<forall>y \<in> set (push_if c x xs). P y"
  by (simp add: push_if_def)

lemma push_if_6:
  "push_if c6 i6 (push_if c5 i5 (push_if c4 i4 (push_if c3 i3 (push_if c2 i2 (push_if c1 i1 []))))) =
   fired [(c1, i1), (c2, i2), (c3, i3), (c4, i4), (c5, i5), (c6, i6)]"
  by (simp add: push_if_def fired_def)

lemma action_roi:
  "roi_score (action_https r) = 95"
  "roi_score (action_lcp r) = 90"
  "roi_score (action_a11y r n) = 85"
  "roi_score (action_meta r) = 80"
  "roi_score (action_pwa r) = 70"
  by (simp_all add: action_https_def action_lcp_def action_a11y_def action_meta_def
      action_pwa_def)

lemma action_https_rank: "(action_https r)\<lparr> rank := r' \<rparr> = action_https r'"
  by (simp add: action_https_def)

lemma sort_rank_slice_leader:
  assumes "\<forall>y \<in> set rest. roi_score y \<le> roi_score x"
  shows "sort_rank_slice (x # rest) \<noteq> [] \<and> hd (sort_rank_slice (x # rest)) = x\<lparr> rank := 1 \<rparr>"
proof -
  have s: "array_sort roi_cmp (x # rest) = x # array_sort roi_cmp rest"
    using assms by (rule array_sort_roi_Cons)
  have u: "update_ranks (x # array_sort roi_cmp rest) \<noteq> []"
    by (simp add: update_ranks_def)
  have "hd (take 10 (update_ranks (x # array_sort roi_cmp rest))) =
      hd (update_ranks (x # array_sort roi_cmp rest))"
    by (rule hd_take) simp
  then show ?thesis
    using u by (simp add: sort_rank_slice_def slice0_def s update_ranks_Cons_hd)
qed

lemma push_if_roi:
  "roi_score x \<le> 95 \<Longrightarrow> \<forall>y \<in> set xs. roi_score y \<le> 95 \<Longrightarrow>
   \<forall>y \<in> set (push_if c x xs). roi_score y \<le> 95"
  by (simp add: push_if_def)

lemma candidates_tail_roi:
  "\<forall>y \<in> set (push_if c5 (action_pwa r5) (push_if c4 (action_meta r4)
      (push_if c3 (action_a11y r3 n3) (push_if c2 (action_lcp r2) [])))). roi_score y \<le> 95"
  by (intro push_if_roi) (simp_all add: action_roi)

lemma push_if_True_4:
  "push_if c5 x5 (push_if c4 x4 (push_if c3 x3 (push_if c2 x2 (push_if True x1 [])))) =
   x1 # push_if c5 x5 (push_if c4 x4 (push_if c3 x3 (push_if c2 x2 [])))"
  by (simp add: push_if_def)

lemma candidates_with_https:
  assumes "some (\<lambda>i. bp_issue_id i = ''is-on-https'' \<and> bp_issue_severity i = Critical)
     (bp_issues best_practices)"
  shows "\<exists>rest. action_candidates performance accessibility seo best_practices pwa =
           action_https 1 # rest \<and> (\<forall>y \<in> set rest. roi_score y \<le> 95)"
proof -
  have c1: "some (\<lambda>i. bp_issue_id i = ''is-on-https'' \<and> bp_issue_severity i = Critical)
     (bp_issues best_practices) = True"
    using assms by (rule eqTrueI)
  show ?thesis
    unfolding action_candidates_def Let_def c1
    by (subst push_if_True_4) (rule exI, rule conjI, rule refl, rule candidates_tail_roi)
qed

section \<open>The severity of a failed audit\<close>

text \<open>
  Claim C3.  A failed audit gets its severity from its score by the first test that
  holds: a score equal to 0 is critical; any other score that is not null and at most 0.5
  is serious; a score that is not null and greater than 0.7 is minor; everything else (a
  score in the interval from 0.5, exclusive, to 0.7, inclusive, or a null score) is
  moderate.  The scores are binary64 values, and on those the test against the literal
  \<open>0.7\<close> agrees with the test against seven tenths.  A score of exactly 0.5 is serious and
  a score of exactly 0.7 (the value the literal denotes) is moderate.
\<close>

theorem failed_audit_severity_thresholds:
  "failed_audit_severity (Some 0) = Critical \<and>
   (x \<noteq> 0 \<and> x \<le> 1 / 2 \<longrightarrow> failed_audit_severity (Some x) = Serious) \<and>
   (7 / 10 < x \<longrightarrow> failed_audit_severity (Some x) = Minor) \<and>
   (fl x = x \<and> 1 / 2 < x \<and> x \<le> 7 / 10 \<longrightarrow> failed_audit_severity (Some x) = Moderate) \<and>
   failed_audit_severity None = Moderate \<and>
   failed_audit_severity (Some (lit (1 / 2))) = Serious \<and>
   failed_audit_severity (Some (lit (7 / 10))) = Moderate"
proof -
  have c: "failed_audit_severity (Some 0) = Critical"
    by (simp add: failed_audit_severity_def)
  have s: "x \<noteq> 0 \<and> x \<le> 1 / 2 \<longrightarrow> failed_audit_severity (Some x) = Serious"
    by (simp add: failed_audit_severity_def lit_half)
  have lo: "lit (7 / 10) < 7 / 10" by (simp add: lit_0_7)
  have mi: "7 / 10 < x \<longrightarrow> failed_audit_severity (Some x) = Minor"
    using lo by (auto simp: failed_audit_severity_def lit_half)
  have mo: "fl x = x \<and> 1 / 2 < x \<and> x \<le> 7 / 10 \<longrightarrow> failed_audit_severity (Some x) = Moderate"
    using double_above_lit_0_7 [of x] by (auto simp: failed_audit_severity_def lit_half)
  have n: "failed_audit_severity None = Moderate"
    by (simp add: failed_audit_severity_def)
  have h: "failed_audit_severity (Some (lit (1 / 2))) = Serious"
    by (simp add: failed_audit_severity_def lit_half)
  have b: "failed_audit_severity (Some (lit (7 / 10))) = Moderate"
    by (simp add: failed_audit_severity_def lit_half lit_0_7)
  from c s mi mo n h b show ?thesis by blast
qed

theorem failed_audit_severity_thresholds_witness:
  "(1 / 4 \<noteq> (0 :: rat) \<and> (1 / 4 :: rat) \<le> 1 / 2 \<and>
    failed_audit_severity (Some (1 / 4)) = Serious) \<and>
   ((7 / 10 :: rat) < 3 / 4 \<and> failed_audit_severity (Some (3 / 4)) = Minor) \<and>
   (fl (5 / 8) = 5 / 8 \<and> (1 / 2 :: rat) < 5 / 8 \<and> (5 / 8 :: rat) \<le> 7 / 10 \<and>
    failed_audit_severity (Some (5 / 8)) = Moderate)"
proof -
  have a: "failed_audit_severity (Some (1 / 4)) = Serious"
    using failed_audit_severity_thresholds [of "1 / 4"] by simp
  have b: "failed_audit_severity (Some (3 / 4)) = Minor"
    using failed_audit_severity_thresholds [of "3 / 4"] by simp
  have c: "failed_audit_severity (Some (5 / 8)) = Moderate"
    using failed_audit_severity_thresholds [of "5 / 8"] fl_5_8 by simp
  from a b c fl_5_8 show ?thesis by simp
qed

section \<open>The action prioritizer\<close>

text \<open>
  Claim C4.  \<open>generatePrioritizedActionItems\<close> hands its candidates to the last three
  statements of the function (\<open>sort_rank_slice\<close>), and for every list of candidates the
  list these return has at most 10 items, carries the ranks 1, 2, 3, ... in order, and is
  non-increasing in \<open>roi_score\<close>; apart from the ranks it is the first 10 items of the
  sorted candidates, which are a permutation of the candidates, non-increasing in
  \<open>roi_score\<close>, with the candidates of every one \<open>roi_score\<close> in their original order.
\<close>

theorem action_items_sorted_ranked_truncated:
  "generatePrioritizedActionItems performance accessibility seo best_practices pwa insights =
     sort_rank_slice (action_candidates performance accessibility seo best_practices pwa) \<and>
   length (sort_rank_slice action_items) \<le> 10 \<and>
   map rank (sort_rank_slice action_items) = [1 ..< Suc (length (sort_rank_slice action_items))] \<and>
   sorted_wrt (\<ge>) (map roi_score (sort_rank_slice action_items)) \<and>
   map (rank_update (\<lambda>_. 0)) (sort_rank_slice action_items) =
     take 10 (map (rank_update (\<lambda>_. 0)) (array_sort roi_cmp action_items)) \<and>
   sorted_wrt (\<ge>) (map roi_score (array_sort roi_cmp action_items)) \<and>
   mset (array_sort roi_cmp action_items) = mset action_items \<and>
   (\<forall>k. filter (\<lambda>i. roi_score i = k) (array_sort roi_cmp action_items) =
        filter (\<lambda>i. roi_score i = k) action_items)"
  by (intro conjI allI generatePrioritizedActionItems_def sort_rank_slice_length
      sort_rank_slice_rank sort_rank_slice_sorted sort_rank_slice_zero array_sort_roi_sorted
      array_sort_roi_mset array_sort_roi_stable)

text \<open>
  Claim C9.  The list of prioritized action items does not depend on the insight list
  passed as the sixth argument.
\<close>

theorem action_items_ignore_insights:
  "generatePrioritizedActionItems performance accessibility seo best_practices pwa insights1 =
   generatePrioritizedActionItems performance accessibility seo best_practices pwa insights2"
  by (simp only: generatePrioritizedActionItems_def)

text \<open>
  Claim C6.  When the best-practices issues contain an issue with id \<open>is-on-https\<close> and
  severity critical, the prioritized action items are not empty and their first item is
  the HTTPS item: rank 1, title \<open>Migrate to HTTPS\<close>, effort medium, \<open>roi_score\<close> 95.  The
  HTTPS candidate is pushed first, and in any candidate list that it leads and in which no
  other candidate has a \<open>roi_score\<close> greater than 95 it holds rank 1 after sorting.
\<close>

theorem https_action_ranked_first:
  "(some (\<lambda>i. bp_issue_id i = ''is-on-https'' \<and> bp_issue_severity i = Critical)
      (bp_issues best_practices) \<longrightarrow>
    generatePrioritizedActionItems performance accessibility seo best_practices pwa insights \<noteq> [] \<and>
    hd (generatePrioritizedActionItems performance accessibility seo best_practices pwa insights) =
      action_https 1) \<and>
   ((\<forall>y \<in> set rest. roi_score y \<le> 95) \<longrightarrow>
    hd (sort_rank_slice (action_https r # rest)) = action_https 1) \<and>
   rank (action_https 1) = 1 \<and>
   action_title (action_https 1) = ''Migrate to HTTPS'' \<and>
   effort (action_https 1) = Medium \<and>
   roi_score (action_https 1) = 95"
proof -
  have g: "(\<forall>y \<in> set rest. roi_score y \<le> 95) \<longrightarrow>
      sort_rank_slice (action_https r # rest) \<noteq> [] \<and>
      hd (sort_rank_slice (action_https r # rest)) = action_https 1" for r rest
    using sort_rank_slice_leader [of rest "action_https r"]
    by (simp add: action_roi action_https_rank)
  have a: "some (\<lambda>i. bp_issue_id i = ''is-on-https'' \<and> bp_issue_severity i = Critical)
      (bp_issues best_practices) \<longrightarrow>
    generatePrioritizedActionItems performance accessibility seo best_practices pwa insights \<noteq> [] \<and>
    hd (generatePrioritizedActionItems performance accessibility seo best_practices pwa insights) =
      action_https 1"
  proof
    assume h: "some (\<lambda>i. bp_issue_id i = ''is-on-https'' \<and> bp_issue_severity i = Critical)
      (bp_issues best_practices)"
    obtain rest where r: "action_candidates performance accessibility seo best_practices pwa =
        action_https 1 # rest" "\<forall>y \<in> set rest. roi_score y \<le> 95"
      using candidates_with_https [OF h] by blast
    show "generatePrioritizedActionItems performance accessibility seo best_practices pwa insights \<noteq> [] \<and>
      hd (generatePrioritizedActionItems performance accessibility seo best_practices pwa insights) =
        action_https 1"
      unfolding generatePrioritizedActionItems_def r(1) using g [of rest 1] r(2) by blast
  qed
  have b: "(\<forall>y \<in> set rest. roi_score y \<le> 95) \<longrightarrow>
      hd (sort_rank_slice (action_https r # rest)) = action_https 1"
    using g [of rest r] by blast
  have f: "rank (action_https 1) = 1" "action_title (action_https 1) = ''Migrate to HTTPS''"
    "effort (action_https 1) = Medium" "roi_score (action_https 1) = 95"
    by (simp_all add: action_https_def)
  show ?thesis
    by (intro conjI a b f)
qed

theorem https_action_ranked_first_witness:
  "some (\<lambda>i. bp_issue_id i = ''is-on-https'' \<and> bp_issue_severity i = Critical)
     (bp_issues scenario_C_best_practices) \<and>
   hd (generatePrioritizedActionItems createEmptyPerformanceReport
         createEmptyAccessibilityReport createEmptySEOReport scenario_C_best_practices
         createEmptyPWAReport []) = action_https 1 \<and>
   roi_score (action_meta 7) \<le> 95 \<and>
   hd (sort_rank_slice [action_https 3, action_meta 7]) = action_https 1"
proof -
  have h: "some (\<lambda>i. bp_issue_id i = ''is-on-https'' \<and> bp_issue_severity i = Critical)
      (bp_issues scenario_C_best_practices)"
    by (simp add: some_def scenario_C_best_practices_def)
  have k: "\<forall>y \<in> set [action_meta 7]. roi_score y \<le> 95"
    by (simp add: action_roi)
  note t = https_action_ranked_first [of scenario_C_best_practices createEmptyPerformanceReport
      createEmptyAccessibilityReport createEmptySEOReport createEmptyPWAReport "[]"
      "[action_meta 7]" 3]
  have m: "roi_score (action_meta 7) \<le> 95"
    by (simp add: action_roi)
  show ?thesis
    by (intro conjI h m t [THEN conjunct1, THEN mp, OF h, THEN conjunct2]
        t [THEN conjunct2, THEN conjunct1, THEN mp, OF k])
qed

section \<open>The insight engine\<close>

lemma insights_follow_rule_table:
  "generateCrossCategoryInsights performance accessibility seo best_practices pwa =
   fired (spec_insight_rules performance accessibility seo best_practices pwa)"
proof -
  have c: "truthy_and_gt (CLS (core_web_vitals performance)) (lit (1 / 10)) \<longleftrightarrow>
      (case CLS (core_web_vitals performance) of None \<Rightarrow> False | Some c \<Rightarrow> c > lit (1 / 10))"
    using lit_0_1_pos by (simp add: truthy_and_gt_case)
  have s: "\<And>x. x \<in> set [''heading-order'', ''document-title''] \<longleftrightarrow>
      x = ''heading-order'' \<or> x = ''document-title''"
    by (simp only: list.set insert_iff empty_iff simp_thms)
  show ?thesis
    unfolding generateCrossCategoryInsights_def spec_insight_rules_def Let_def
      some_iff c mobile_issues_positive_def push_if_5 s
    by (rule refl)
qed

lemma insight_ids:
  "insight_id insight_large_images = ''large-images-multi-impact''"
  "insight_id insight_mobile \<noteq> ''large-images-multi-impact''"
  "insight_id insight_pwa \<noteq> ''large-images-multi-impact''"
  "insight_id insight_https \<noteq> ''large-images-multi-impact''"
  "insight_id insight_semantic \<noteq> ''large-images-multi-impact''"
  by (simp_all add: insight_large_images_def insight_mobile_def insight_pwa_def
      insight_https_def insight_semantic_def)

text \<open>
  Claim C7.  When the performance opportunities contain the id \<open>uses-optimized-images\<close> and
  the accessibility violations contain the id \<open>image-alt\<close>, the insight list holds exactly
  one insight with the id \<open>large-images-multi-impact\<close> (it is the first one); its impact is
  serious and its categories are performance, accessibility and seo.  For every input the
  insight list is the rule table evaluated rule by rule, in table order.
\<close>

theorem insights_large_images:
  "(some (\<lambda>opp. opportunity_id opp = ''uses-optimized-images'') (opportunities performance) \<and>
    some (\<lambda>v. violation_id v = ''image-alt'') (violations accessibility) \<longrightarrow>
    length (filter (\<lambda>i. insight_id i = ''large-images-multi-impact'')
      (generateCrossCategoryInsights performance accessibility seo best_practices pwa)) = 1 \<and>
    hd (generateCrossCategoryInsights performance accessibility seo best_practices pwa) =
      insight_large_images) \<and>
   insight_id insight_large_images = ''large-images-multi-impact'' \<and>
   insight_impact insight_large_images = Serious \<and>
   affected_categories insight_large_images = [''performance'', ''accessibility'', ''seo''] \<and>
   generateCrossCategoryInsights performance accessibility seo best_practices pwa =
     fired (spec_insight_rules performance accessibility seo best_practices pwa)"
proof -
  let ?out = "generateCrossCategoryInsights performance accessibility seo best_practices pwa"
  have a: "some (\<lambda>opp. opportunity_id opp = ''uses-optimized-images'') (opportunities performance) \<and>
    some (\<lambda>v. violation_id v = ''image-alt'') (violations accessibility) \<longrightarrow>
    length (filter (\<lambda>i. insight_id i = ''large-images-multi-impact'') ?out) = 1 \<and>
    hd ?out = insight_large_images"
  proof (intro impI)
    assume h: "some (\<lambda>opp. opportunity_id opp = ''uses-optimized-images'') (opportunities performance) \<and>
      some (\<lambda>v. violation_id v = ''image-alt'') (violations accessibility)"
    obtain c2 c3 c4 c5 where o: "?out = fired [(True, insight_large_images), (c2, insight_mobile),
        (c3, insight_pwa), (c4, insight_https), (c5, insight_semantic)]"
      using h unfolding generateCrossCategoryInsights_def Let_def push_if_5 by simp
    show "length (filter (\<lambda>i. insight_id i = ''large-images-multi-impact'') ?out) = 1 \<and>
      hd ?out = insight_large_images"
      unfolding o by (simp add: fired_Cons fired_Nil insight_ids)
  qed
  have b: "insight_impact insight_large_images = Serious"
    "affected_categories insight_large_images = [''performance'', ''accessibility'', ''seo'']"
    by (simp_all add: insight_large_images_def)
  show ?thesis
    by (intro conjI a insight_ids(1) b insights_follow_rule_table)
qed

theorem insights_large_images_witness:
  "some (\<lambda>opp. opportunity_id opp = ''uses-optimized-images'')
     (opportunities scenario_B_performance) \<and>
   some (\<lambda>v. violation_id v = ''image-alt'') (violations scenario_B_accessibility) \<and>
   length (filter (\<lambda>i. insight_id i = ''large-images-multi-impact'')
     (generateCrossCategoryInsights scenario_B_performance scenario_B_accessibility
        createEmptySEOReport createEmptyBestPracticesReport createEmptyPWAReport)) = 1 \<and>
   hd (generateCrossCategoryInsights scenario_B_performance scenario_B_accessibility
        createEmptySEOReport createEmptyBestPracticesReport createEmptyPWAReport) =
     insight_large_images"
proof -
  have h1: "some (\<lambda>opp. opportunity_id opp = ''uses-optimized-images'')
      (opportunities scenario_B_performance)"
    by (simp add: some_def scenario_B_performance_def)
  have h2: "some (\<lambda>v. violation_id v = ''image-alt'') (violations scenario_B_accessibility)"
    by (simp add: some_def scenario_B_accessibility_def)
  note t = insights_large_images [of scenario_B_performance scenario_B_accessibility
      createEmptySEOReport createEmptyBestPracticesReport createEmptyPWAReport,
      THEN conjunct1, THEN mp, OF conjI [OF h1 h2]]
  show ?thesis
    by (intro conjI h1 h2 t [THEN conjunct1] t [THEN conjunct2])
qed

section \<open>The quick-win extractor\<close>

lemma quick_wins_follow_rule_table:
  "generateQuickWins performance accessibility seo best_practices pwa =
   fired (spec_quick_win_rules performance accessibility seo)"
proof -
  have "slice0 6 (fired [r1, r2, r3, r4, r5, r6]) = fired [r1, r2, r3, r4, r5, r6]"
    for r1 r2 r3 r4 r5 r6 :: "bool \<times> QuickWin"
    using length_fired [of "[r1, r2, r3, r4, r5, r6]"] by (simp add: slice0_def)
  then show ?thesis
    unfolding generateQuickWins_def spec_quick_win_rules_def Let_def some_iff push_if_6
    by (rule trans) (rule refl)
qed

text \<open>
  Claim C8.  When the accessibility violations contain the id \<open>color-contrast\<close>, the quick
  wins contain the entry titled \<open>Fix color contrast issues\<close> with category
  \<open>accessibility\<close>.  For every input the quick wins are the six-rule table evaluated rule by
  rule in table order (no sorting), and there are at most 6 of them.
\<close>

theorem quick_wins_color_contrast:
  "(some (\<lambda>v. violation_id v = ''color-contrast'') (violations accessibility) \<longrightarrow>
    quick_win_contrast \<in> set (generateQuickWins performance accessibility seo best_practices pwa)) \<and>
   qw_title quick_win_contrast = ''Fix color contrast issues'' \<and>
   qw_category quick_win_contrast = ''accessibility'' \<and>
   generateQuickWins performance accessibility seo best_practices pwa =
     fired (spec_quick_win_rules performance accessibility seo) \<and>
   length (generateQuickWins performance accessibility seo best_practices pwa) \<le> 6"
proof -
  let ?out = "generateQuickWins performance accessibility seo best_practices pwa"
  have a: "some (\<lambda>v. violation_id v = ''color-contrast'') (violations accessibility) \<longrightarrow>
      quick_win_contrast \<in> set ?out"
  proof
    assume h: "some (\<lambda>v. violation_id v = ''color-contrast'') (violations accessibility)"
    have c6: "(\<exists>v \<in> set (violations accessibility). violation_id v = ''color-contrast'') = True"
      using h unfolding some_iff by (rule eqTrueI)
    have m: "quick_win_contrast \<in> set (fired [(c1, quick_win_meta), (c2, quick_win_alt),
        (c3, quick_win_compression), (c4, quick_win_viewport), (c5, quick_win_title),
        (True, quick_win_contrast)])" for c1 c2 c3 c4 c5
      by (simp add: fired_Cons fired_Nil)
    show "quick_win_contrast \<in> set ?out"
      unfolding quick_wins_follow_rule_table spec_quick_win_rules_def c6 by (rule m)
  qed
  have f: "qw_title quick_win_contrast = ''Fix color contrast issues''"
    "qw_category quick_win_contrast = ''accessibility''"
    by (simp_all add: quick_win_contrast_def)
  have l: "length ?out \<le> 6"
    unfolding quick_wins_follow_rule_table spec_quick_win_rules_def
    by (rule order_trans [OF length_fired]) simp
  show ?thesis
    by (intro conjI a f l quick_wins_follow_rule_table)
qed

theorem quick_wins_color_contrast_witness:
  "some (\<lambda>v. violation_id v = ''color-contrast'') (violations scenario_E_accessibility) \<and>
   quick_win_contrast \<in> set (generateQuickWins createEmptyPerformanceReport
     scenario_E_accessibility createEmptySEOReport createEmptyBestPracticesReport
     createEmptyPWAReport)"
proof -
  have h: "some (\<lambda>v. violation_id v = ''color-contrast'') (violations scenario_E_accessibility)"
    by (simp add: some_def scenario_E_accessibility_def)
  note t = quick_wins_color_contrast [of scenario_E_accessibility createEmptyPerformanceReport
      createEmptySEOReport createEmptyBestPracticesReport createEmptyPWAReport]
  show ?thesis
    by (intro conjI h t [THEN conjunct1, THEN mp, OF h])
qed

section \<open>The PWA adapter\<close>

lemma evaluated_audits_Nil: "evaluated_audits result [] = []"
  by (simp add: evaluated_audits_def)

lemma evaluated_audits_Cons:
  "evaluated_audits result (ref # refs) =
     (case audits result (ref_id ref) of
        None \<Rightarrow> evaluated_audits result refs
      | Some a \<Rightarrow> (ref, a) # evaluated_audits result refs)"
  by (simp add: evaluated_audits_def split: option.splits)

text \<open>One turn of the loop, in terms of the bucket of the entry.\<close>

lemma body_absent:
  "audits result (ref_id ref) = None \<Longrightarrow> audit_loop_body result ref st = st"
  by (simp add: audit_loop_body_def)

lemma body_present:
  assumes "audits result (ref_id ref) = Some a"
  shows "manualCount (audit_loop_body result ref st) =
           manualCount st + (if spec_bucket a = ManualBucket then 1 else 0)"
    and "informativeCount (audit_loop_body result ref st) =
           informativeCount st + (if spec_bucket a = InformativeBucket then 1 else 0)"
    and "notApplicableCount (audit_loop_body result ref st) =
           notApplicableCount st + (if spec_bucket a = NotApplicableBucket then 1 else 0)"
    and "passedCount (audit_loop_body result ref st) =
           passedCount st + (if spec_bucket a = PassedBucket then 1 else 0)"
    and "failedCount (audit_loop_body result ref st) =
           failedCount st + (if spec_bucket a = FailedBucket then 1 else 0)"
    and "issues (audit_loop_body result ref st) =
           issues st @ (if spec_bucket a = FailedBucket then [issue_of (ref, a)] else [])"
  using assms by (simp_all add: audit_loop_body_def spec_bucket_def issue_of_def)

lemma loop_invariant:
  "manualCount (fold (audit_loop_body result) refs st) =
     manualCount st + count_bucket ManualBucket (evaluated_audits result refs) \<and>
   informativeCount (fold (audit_loop_body result) refs st) =
     informativeCount st + count_bucket InformativeBucket (evaluated_audits result refs) \<and>
   notApplicableCount (fold (audit_loop_body result) refs st) =
     notApplicableCount st + count_bucket NotApplicableBucket (evaluated_audits result refs) \<and>
   passedCount (fold (audit_loop_body result) refs st) =
     passedCount st + count_bucket PassedBucket (evaluated_audits result refs) \<and>
   failedCount (fold (audit_loop_body result) refs st) =
     failedCount st + count_bucket FailedBucket (evaluated_audits result refs) \<and>
   issues (fold (audit_loop_body result) refs st) =
     issues st @ collected_issues result refs"
proof (induction refs arbitrary: st)
  case Nil
  show ?case by (simp add: evaluated_audits_Nil count_bucket_def collected_issues_def)
next
  case (Cons ref refs)
  show ?case
  proof (cases "audits result (ref_id ref)")
    case None
    then show ?thesis
      using Cons.IH [of st]
      by (simp add: body_absent evaluated_audits_Cons collected_issues_def)
  next
    case (Some a)
    show ?thesis
      using Cons.IH [of "audit_loop_body result ref st"]
      by (simp add: body_present [OF Some] evaluated_audits_Cons Some count_bucket_def
          collected_issues_def)
  qed
qed

lemma bucket_partition:
  "count_bucket FailedBucket es + count_bucket PassedBucket es + count_bucket ManualBucket es +
   count_bucket InformativeBucket es + count_bucket NotApplicableBucket es = length es"
proof (induction es)
  case Nil
  show ?case by (simp add: count_bucket_def)
next
  case (Cons e es)
  then show ?case by (cases "spec_bucket (snd e)") (simp_all add: count_bucket_def)
qed


lemma array_sort_severity:
  "array_sort severity_cmp xs = sort_key (\<lambda>i. severityOrder (issue_severity i)) xs"
  by (rule array_sort_sort_key) (simp add: severity_cmp_def)

lemma severityOrder_inj: "severityOrder a = severityOrder b \<longleftrightarrow> a = b"
  by (cases a; cases b) simp_all

lemma array_sort_severity_stable:
  "filter (\<lambda>i. issue_severity i = s) (array_sort severity_cmp xs) =
   filter (\<lambda>i. issue_severity i = s) xs"
proof -
  have e: "(\<lambda>i. issue_severity i = s) =
      (\<lambda>i :: PWAIssue. severityOrder (issue_severity i) = severityOrder s)"
    by (simp add: severityOrder_inj)
  show ?thesis unfolding e array_sort_severity by (rule sort_key_stable)
qed

lemma pwa_report_counts:
  "pwa_audit_counts (pwa_report result pwaCategory) =
     \<lparr> failed = count_bucket FailedBucket (evaluated_audits result (auditRefs pwaCategory)),
       passed = count_bucket PassedBucket (evaluated_audits result (auditRefs pwaCategory)),
       manual = count_bucket ManualBucket (evaluated_audits result (auditRefs pwaCategory)),
       informative =
         count_bucket InformativeBucket (evaluated_audits result (auditRefs pwaCategory)),
       not_applicable =
         count_bucket NotApplicableBucket (evaluated_audits result (auditRefs pwaCategory)) \<rparr>"
  using loop_invariant [of result "auditRefs pwaCategory" audit_loop_init]
  by (simp add: pwa_report_def Let_def audit_loop_run_def audit_loop_init_def)

lemma pwa_report_issues:
  "pwa_issues (pwa_report result pwaCategory) =
     array_sort severity_cmp (collected_issues result (auditRefs pwaCategory))"
  using loop_invariant [of result "auditRefs pwaCategory" audit_loop_init]
  by (simp add: pwa_report_def Let_def audit_loop_run_def audit_loop_init_def)

lemma runPWAAudit_success:
  assumes "runPWAAudit engine = Inr r"
  shows "\<exists>result pwaCategory. engine = Inr result \<and> categories result ''pwa'' = Some pwaCategory \<and>
           content (report r) = pwa_report result pwaCategory"
  using assms by (auto simp: runPWAAudit_def split: sum.splits option.splits)

lemma example_run: "runPWAAudit (Inr example_result) = Inr example_report"
  by (simp add: runPWAAudit_def example_result_def example_report_def)

lemma example_counts:
  "pwa_audit_counts (pwa_report example_result example_category) =
     \<lparr> failed = 2, passed = 1, manual = 1, informative = 0, not_applicable = 0 \<rparr>"
  by code_simp

lemma example_collected:
   "map issue_id (collected_issues example_result (auditRefs example_category)) =
     [''viewport'', ''service-worker'']"
  by code_simp

lemma example_issues:
   "map issue_id (pwa_issues (pwa_report example_result example_category)) =
     [''service-worker'', ''viewport'']"
  by code_simp


lemma example_category_found: "categories example_result ''pwa'' = Some example_category"
  by (simp add: example_result_def)

text \<open>
  Claim C5.  In every report that \<open>runPWAAudit\<close> returns, the five audit counts add up to
  the number of audit entries evaluated (the references of the category that have an
  entry in the result), and each count is the number of evaluated entries of its bucket,
  the bucket being decided in the order manual, informative, not applicable, passed,
  failed.
\<close>

theorem pwa_audit_counts_partition:
  assumes "runPWAAudit engine = Inr r"
  shows "\<exists>result pwaCategory es.
           engine = Inr result \<and> categories result ''pwa'' = Some pwaCategory \<and>
           es = evaluated_audits result (auditRefs pwaCategory) \<and>
           failed (pwa_audit_counts (content (report r))) +
           passed (pwa_audit_counts (content (report r))) +
           manual (pwa_audit_counts (content (report r))) +
           informative (pwa_audit_counts (content (report r))) +
           not_applicable (pwa_audit_counts (content (report r))) = length es \<and>
           manual (pwa_audit_counts (content (report r))) = count_bucket ManualBucket es \<and>
           informative (pwa_audit_counts (content (report r))) =
             count_bucket InformativeBucket es \<and>
           not_applicable (pwa_audit_counts (content (report r))) =
             count_bucket NotApplicableBucket es \<and>
           passed (pwa_audit_counts (content (report r))) = count_bucket PassedBucket es \<and>
           failed (pwa_audit_counts (content (report r))) = count_bucket FailedBucket es"
proof -
  obtain result pwaCategory where e: "engine = Inr result"
    "categories result ''pwa'' = Some pwaCategory"
    "content (report r) = pwa_report result pwaCategory"
    using runPWAAudit_success [OF assms] by blast
  show ?thesis
    using bucket_partition [of "evaluated_audits result (auditRefs pwaCategory)"]
    by (simp add: e pwa_report_counts)
qed

theorem pwa_audit_counts_partition_witness:
  "runPWAAudit (Inr example_result) = Inr example_report \<and>
   failed (pwa_audit_counts (content (report example_report))) +
   passed (pwa_audit_counts (content (report example_report))) +
   manual (pwa_audit_counts (content (report example_report))) +
   informative (pwa_audit_counts (content (report example_report))) +
   not_applicable (pwa_audit_counts (content (report example_report))) =
     length (evaluated_audits example_result (auditRefs example_category)) \<and>
   pwa_audit_counts (content (report example_report)) =
     \<lparr> failed = 2, passed = 1, manual = 1, informative = 0, not_applicable = 0 \<rparr> \<and>
   length (auditRefs example_category) = 5"
proof -
  obtain result pwaCategory where e: "Inr example_result = (Inr result :: error + LighthouseResult)"
    "categories result ''pwa'' = Some pwaCategory"
    "failed (pwa_audit_counts (content (report example_report))) +
     passed (pwa_audit_counts (content (report example_report))) +
     manual (pwa_audit_counts (content (report example_report))) +
     informative (pwa_audit_counts (content (report example_report))) +
     not_applicable (pwa_audit_counts (content (report example_report))) =
       length (evaluated_audits result (auditRefs pwaCategory))"
    using pwa_audit_counts_partition [OF example_run] by blast
  have r: "result = example_result" using e(1) by simp
  have c: "pwaCategory = example_category"
    using e(2) example_category_found by (simp add: r)
  have n: "pwa_audit_counts (content (report example_report)) =
      \<lparr> failed = 2, passed = 1, manual = 1, informative = 0, not_applicable = 0 \<rparr>"
    by (simp add: example_report_def example_counts)
  have l: "length (auditRefs example_category) = 5"
    by (simp add: example_category_def)
  show ?thesis
    by (intro conjI example_run e(3) [unfolded r c] n l)
qed

text \<open>
  Claim C10.  In every report that \<open>runPWAAudit\<close> returns, the issues are in
  non-decreasing order of severity rank: they are the collected issues after the in-place
  sort, a permutation of the collected issues that keeps the issues of one severity in
  the order collected.  The example has the issues collected as viewport, service-worker
  and reported as service-worker, viewport.
\<close>

theorem pwa_issues_in_severity_order:
  assumes "runPWAAudit engine = Inr r"
  shows "sorted (map (\<lambda>i. severityOrder (issue_severity i)) (pwa_issues (content (report r)))) \<and>
         (\<exists>result pwaCategory.
            engine = Inr result \<and> categories result ''pwa'' = Some pwaCategory \<and>
            pwa_issues (content (report r)) =
              array_sort severity_cmp (collected_issues result (auditRefs pwaCategory)) \<and>
            mset (pwa_issues (content (report r))) =
              mset (collected_issues result (auditRefs pwaCategory)) \<and>
            (\<forall>s. filter (\<lambda>i. issue_severity i = s) (pwa_issues (content (report r))) =
                 filter (\<lambda>i. issue_severity i = s)
                   (collected_issues result (auditRefs pwaCategory))))"
proof -
  obtain result pwaCategory where e: "engine = Inr result"
    "categories result ''pwa'' = Some pwaCategory"
    "content (report r) = pwa_report result pwaCategory"
    using runPWAAudit_success [OF assms] by blast
  let ?c = "collected_issues result (auditRefs pwaCategory)"
  have i: "pwa_issues (content (report r)) = array_sort severity_cmp ?c"
    by (simp add: e pwa_report_issues)
  have s: "sorted (map (\<lambda>i. severityOrder (issue_severity i)) (array_sort severity_cmp ?c))"
    by (simp add: array_sort_severity)
  have m: "mset (array_sort severity_cmp ?c) = mset ?c"
    by (simp add: array_sort_severity)
  show ?thesis
    unfolding i using s m e(1,2) array_sort_severity_stable by blast
qed

theorem pwa_issues_in_severity_order_witness:
  "runPWAAudit (Inr example_result) = Inr example_report \<and>
   sorted (map (\<lambda>i. severityOrder (issue_severity i))
     (pwa_issues (content (report example_report)))) \<and>
   map issue_id (pwa_issues (content (report example_report))) =
     [''service-worker'', ''viewport''] \<and>
   map issue_id (collected_issues example_result (auditRefs example_category)) =
     [''viewport'', ''service-worker'']"
proof -
  have i: "map issue_id (pwa_issues (content (report example_report))) =
      [''service-worker'', ''viewport'']"
    by (simp add: example_report_def example_issues)
  show ?thesis
    by (intro conjI example_run
        pwa_issues_in_severity_order [OF example_run, THEN conjunct1] i example_collected)
qed

section \<open>The overall score\<close>

lemma tie_scores_valid: "valid_scores tie_scores"
  by (simp add: valid_scores_def tie_scores_def)

lemma tie_scores_code: "weighted_overall_score tie_scores = 0"
  by code_simp

lemma tie_scores_spec: "spec_round (spec_weighted_sum tie_scores) = 1"
  by code_simp

text \<open>
  Claim C1, as the specification states it, fails: the scores 0, 0, 0, 3, 1 have the
  exact weighted sum one half, which rounds to 1, while the source computes
  \<open>3 * 0.15 + 1 * 0.05\<close> in binary64 as 0.49999999999999994 and \<open>Math.round\<close> gives 0.
\<close>

theorem overall_score_tie_counterexample:
  "valid_scores tie_scores \<and>
   weighted_overall_score tie_scores = 0 \<and>
   spec_round (spec_weighted_sum tie_scores) = 1 \<and>
   weighted_overall_score tie_scores \<noteq> spec_round (spec_weighted_sum tie_scores)"
  by (simp add: tie_scores_valid tie_scores_code tie_scores_spec)

text \<open>
  Claim C1, amended.  For integer category scores from 0 to 100, the overall score is
  \<open>Math.round\<close> of the binary64 value of the weighted sum, evaluated left to right; it lies
  between 0 and 100; the binary64 sum is within \<open>1 / 2 ^ 43\<close> of the exact weighted sum, so the
  overall score is the exact weighted sum rounded to the nearest integer whenever that sum
  is not a tie (its fractional part is not one half), and at a tie it is that rounding or
  one less.  The five weight literals add up to exactly 1 in binary64 addition.
\<close>

theorem overall_score_binary64:
  assumes "valid_scores cs"
  shows "weighted_overall_score cs = Math_round (weighted_sum cs) \<and>
         0 \<le> weighted_overall_score cs \<and> weighted_overall_score cs \<le> 100 \<and>
         \<bar>weighted_sum cs - spec_weighted_sum cs\<bar> \<le> 1 / 2 ^ 43 \<and>
         (frac (spec_weighted_sum cs) \<noteq> 1 / 2 \<longrightarrow>
            weighted_overall_score cs = spec_round (spec_weighted_sum cs)) \<and>
         (weighted_overall_score cs = spec_round (spec_weighted_sum cs) \<or>
          weighted_overall_score cs = spec_round (spec_weighted_sum cs) - 1) \<and>
         fadd (fadd (fadd (fadd (lit (3 / 10)) (lit (25 / 100))) (lit (25 / 100)))
           (lit (15 / 100))) (lit (5 / 100)) = 1"
proof -
  have a: "weighted_overall_score cs = Math_round (weighted_sum cs)"
    by (rule weighted_overall_score_def)
  have "\<bar>weighted_sum cs - spec_weighted_sum cs\<bar> \<le> 1 / 8796093022208"
    using weighted_sum_bounds [OF assms] by linarith
  then have b: "\<bar>weighted_sum cs - spec_weighted_sum cs\<bar> \<le> 1 / 2 ^ 43"
    by simp
  show ?thesis
    using a b overall_score_range [OF assms] overall_score_cases [OF assms]
      weights_sum_binary64
    by (intro conjI) simp_all
qed

lemma example_scores_valid: "valid_scores example_scores"
  by (simp add: valid_scores_def example_scores_def)

lemma example_scores_spec: "spec_weighted_sum example_scores = 76"
  by (simp add: spec_weighted_sum_def example_scores_def)

theorem overall_score_binary64_witness:
  "valid_scores example_scores \<and>
   frac (spec_weighted_sum example_scores) \<noteq> 1 / 2 \<and>
   weighted_overall_score example_scores = 76 \<and>
   valid_scores tie_scores \<and>
   0 \<le> weighted_overall_score tie_scores \<and> weighted_overall_score tie_scores \<le> 100"
proof -
  have z: "frac (76 :: rat) = 0"
    by (simp add: frac_def)
  have f: "frac (spec_weighted_sum example_scores) \<noteq> 1 / 2"
    unfolding example_scores_spec z by simp
  have s: "spec_round (spec_weighted_sum example_scores) = 76"
    by code_simp
  note t = overall_score_binary64 [OF example_scores_valid]
  have e: "weighted_overall_score example_scores = 76"
    using t f s by simp
  note u = overall_score_binary64 [OF tie_scores_valid]
  show ?thesis
    using e f u example_scores_valid tie_scores_valid by simp
qed

section \<open>The orchestrator\<close>

lemma catch_null_simps:
  "catch_null (Inl e) = None"
  "catch_null (Inr v) = Some v"
  by (simp_all add: catch_null_def)

lemma run_returns:
  "\<exists>r. runComprehensiveSiteAnalysis url now po ao so bo wo = Inr r \<and>
     csa_url r = url \<and>
     csa_performance r =
       content_or (map_option (\<lambda>r. content (report r)) (catch_null po))
         createEmptyPerformanceReport \<and>
     csa_accessibility r =
       content_or (map_option (\<lambda>r. content (report r)) (catch_null ao))
         createEmptyAccessibilityReport \<and>
     csa_seo r = content_or (map_option direct_report (catch_null so)) createEmptySEOReport \<and>
     csa_best_practices r =
       content_or (map_option (\<lambda>r. content (report r)) (catch_null bo))
         createEmptyBestPracticesReport \<and>
     csa_pwa r =
       content_or (map_option (\<lambda>r. content (report r)) (catch_null wo)) createEmptyPWAReport \<and>
     cs_performance (csa_category_scores r) =
       score_or_0 (map_option perf_score
         (map_option (\<lambda>r. content (report r)) (catch_null po))) \<and>
     cs_accessibility (csa_category_scores r) =
       score_or_0 (map_option a11y_score
         (map_option (\<lambda>r. content (report r)) (catch_null ao))) \<and>
     cs_seo (csa_category_scores r) =
       score_or_0 (map_option seo_score (map_option direct_report (catch_null so))) \<and>
     cs_best_practices (csa_category_scores r) =
       score_or_0 (map_option bp_score
         (map_option (\<lambda>r. content (report r)) (catch_null bo))) \<and>
     cs_pwa (csa_category_scores r) =
       score_or_0 (map_option pwa_score
         (map_option (\<lambda>r. content (report r)) (catch_null wo))) \<and>
     csa_overall_score r = weighted_overall_score (csa_category_scores r) \<and>
     csa_summary r =
       calculateSummary (csa_performance r) (csa_accessibility r) (csa_seo r)
         (csa_best_practices r) (csa_pwa r) \<and>
     csa_cross_category_insights r =
       generateCrossCategoryInsights (csa_performance r) (csa_accessibility r) (csa_seo r)
         (csa_best_practices r) (csa_pwa r) \<and>
     csa_prioritized_action_items r =
       generatePrioritizedActionItems (csa_performance r) (csa_accessibility r) (csa_seo r)
         (csa_best_practices r) (csa_pwa r) (csa_cross_category_insights r) \<and>
     csa_quick_wins r =
       generateQuickWins (csa_performance r) (csa_accessibility r) (csa_seo r)
         (csa_best_practices r) (csa_pwa r)"
  by (simp add: runComprehensiveSiteAnalysis_def Let_def)

lemma fmul_zero: "fmul 0 c = 0"
  by (simp add: fmul_def fl_def)


lemma empty_reports_canonical:
  "perf_score createEmptyPerformanceReport = 0 \<and>
   perf_audit_counts createEmptyPerformanceReport = empty_audit_counts \<and>
   opportunities createEmptyPerformanceReport = [] \<and>
   CLS (core_web_vitals createEmptyPerformanceReport) = None \<and>
   LCP (core_web_vitals createEmptyPerformanceReport) = None \<and>
   a11y_score createEmptyAccessibilityReport = 0 \<and>
   a11y_audit_counts createEmptyAccessibilityReport = empty_audit_counts \<and>
   violations createEmptyAccessibilityReport = [] \<and>
   seo_score createEmptySEOReport = 0 \<and>
   seo_audit_counts createEmptySEOReport = empty_audit_counts \<and>
   seo_issues createEmptySEOReport = [] \<and>
   seo_categories createEmptySEOReport = Map.empty \<and>
   bp_score createEmptyBestPracticesReport = 0 \<and>
   bp_audit_counts createEmptyBestPracticesReport = empty_audit_counts \<and>
   bp_issues createEmptyBestPracticesReport = [] \<and>
   pwa_score createEmptyPWAReport = 0 \<and>
   pwa_audit_counts createEmptyPWAReport = empty_audit_counts \<and>
   pwa_issues createEmptyPWAReport = [] \<and>
   \<not> is_installable (installability createEmptyPWAReport) \<and>
   \<not> has_manifest (installability createEmptyPWAReport) \<and>
   \<not> has_service_worker (installability createEmptyPWAReport) \<and>
   \<not> has_icons (installability createEmptyPWAReport) \<and>
   installability_issues (installability createEmptyPWAReport) = [] \<and>
   \<not> offline_support createEmptyPWAReport \<and>
   \<not> fast_reliable createEmptyPWAReport \<and>
   \<not> optimized createEmptyPWAReport \<and>
   empty_audit_counts =
     \<lparr> failed = 0, passed = 0, manual = 0, informative = 0, not_applicable = 0 \<rparr>"
  by (simp add: createEmptyPerformanceReport_def createEmptyAccessibilityReport_def
      createEmptySEOReport_def createEmptyBestPracticesReport_def createEmptyPWAReport_def
      empty_audit_counts_def)

lemma Math_round_zero: "Math_round 0 = 0"
  by code_simp

lemma all_zero_overall:
  assumes "cs_performance cs = 0" "cs_accessibility cs = 0" "cs_seo cs = 0"
    "cs_best_practices cs = 0" "cs_pwa cs = 0"
  shows "weighted_overall_score cs = 0"
proof -
  have "weighted_sum cs = 0"
    by (simp add: weighted_sum_def assms fmul_zero fadd_def fl_def)
  then show ?thesis
    by (simp add: weighted_overall_score_def Math_round_zero)
qed

text \<open>
  Claim C2.  \<open>runComprehensiveSiteAnalysis\<close> returns an analysis whatever the five adapter
  outcomes are.  For each adapter that failed, the report of its category in the analysis
  is the empty report of that category, its entry in \<open>category_scores\<close> is 0 and its term
  of the weighted sum is 0.  The overall score is the weighted score of the category
  scores; terms that are 0 leave the sum as it is, so it is \<open>Math.round\<close> of the sum of the
  terms that are not 0, and it is 0 when all five adapters failed.
\<close>

theorem failed_adapters_degrade:
  "\<exists>r. runComprehensiveSiteAnalysis url now po ao so bo wo = Inr r \<and>
     csa_overall_score r = weighted_overall_score (csa_category_scores r) \<and>
     csa_overall_score r =
       Math_round (fsum (filter (\<lambda>t. t \<noteq> 0) (weighted_terms (csa_category_scores r)))) \<and>
     (isl po \<longrightarrow>
        csa_performance r = createEmptyPerformanceReport \<and>
        cs_performance (csa_category_scores r) = 0 \<and>
        fmul (of_int (cs_performance (csa_category_scores r))) (lit (3 / 10)) = 0) \<and>
     (isl ao \<longrightarrow>
        csa_accessibility r = createEmptyAccessibilityReport \<and>
        cs_accessibility (csa_category_scores r) = 0 \<and>
        fmul (of_int (cs_accessibility (csa_category_scores r))) (lit (25 / 100)) = 0) \<and>
     (isl so \<longrightarrow>
        csa_seo r = createEmptySEOReport \<and>
        cs_seo (csa_category_scores r) = 0 \<and>
        fmul (of_int (cs_seo (csa_category_scores r))) (lit (25 / 100)) = 0) \<and>
     (isl bo \<longrightarrow>
        csa_best_practices r = createEmptyBestPracticesReport \<and>
        cs_best_practices (csa_category_scores r) = 0 \<and>
        fmul (of_int (cs_best_practices (csa_category_scores r))) (lit (15 / 100)) = 0) \<and>
     (isl wo \<longrightarrow>
        csa_pwa r = createEmptyPWAReport \<and>
        cs_pwa (csa_category_scores r) = 0 \<and>
        fmul (of_int (cs_pwa (csa_category_scores r))) (lit (5 / 100)) = 0) \<and>
     (isl po \<and> isl ao \<and> isl so \<and> isl bo \<and> isl wo \<longrightarrow> csa_overall_score r = 0)"
proof -
  obtain r where r: "runComprehensiveSiteAnalysis url now po ao so bo wo = Inr r"
    and o: "csa_overall_score r = weighted_overall_score (csa_category_scores r)"
    and p: "csa_performance r =
       content_or (map_option (\<lambda>r. content (report r)) (catch_null po))
         createEmptyPerformanceReport"
      "cs_performance (csa_category_scores r) =
       score_or_0 (map_option perf_score
         (map_option (\<lambda>r. content (report r)) (catch_null po)))"
    and a: "csa_accessibility r =
       content_or (map_option (\<lambda>r. content (report r)) (catch_null ao))
         createEmptyAccessibilityReport"
      "cs_accessibility (csa_category_scores r) =
       score_or_0 (map_option a11y_score
         (map_option (\<lambda>r. content (report r)) (catch_null ao)))"
    and s: "csa_seo r = content_or (map_option direct_report (catch_null so)) createEmptySEOReport"
      "cs_seo (csa_category_scores r) =
       score_or_0 (map_option seo_score (map_option direct_report (catch_null so)))"
    and b: "csa_best_practices r =
       content_or (map_option (\<lambda>r. content (report r)) (catch_null bo))
         createEmptyBestPracticesReport"
      "cs_best_practices (csa_category_scores r) =
       score_or_0 (map_option bp_score
         (map_option (\<lambda>r. content (report r)) (catch_null bo)))"
    and w: "csa_pwa r =
       content_or (map_option (\<lambda>r. content (report r)) (catch_null wo)) createEmptyPWAReport"
      "cs_pwa (csa_category_scores r) =
       score_or_0 (map_option pwa_score
         (map_option (\<lambda>r. content (report r)) (catch_null wo)))"
    using run_returns [of url now po ao so bo wo] by blast
  have n: "isl x \<Longrightarrow> catch_null x = None" for x :: "error + 'z"
    by (cases x) (simp_all add: catch_null_def)
  have z: "content_or None d = d" "score_or_0 None = 0" for d :: 'y
    by (simp_all add: content_or_def score_or_0_def)
  have fp: "isl po \<longrightarrow> csa_performance r = createEmptyPerformanceReport \<and>
        cs_performance (csa_category_scores r) = 0 \<and>
        fmul (of_int (cs_performance (csa_category_scores r))) (lit (3 / 10)) = 0"
    by (simp add: p n z fmul_zero)
  have fa: "isl ao \<longrightarrow> csa_accessibility r = createEmptyAccessibilityReport \<and>
        cs_accessibility (csa_category_scores r) = 0 \<and>
        fmul (of_int (cs_accessibility (csa_category_scores r))) (lit (25 / 100)) = 0"
    by (simp add: a n z fmul_zero)
  have fs: "isl so \<longrightarrow> csa_seo r = createEmptySEOReport \<and>
        cs_seo (csa_category_scores r) = 0 \<and>
        fmul (of_int (cs_seo (csa_category_scores r))) (lit (25 / 100)) = 0"
    by (simp add: s n z fmul_zero)
  have fb: "isl bo \<longrightarrow> csa_best_practices r = createEmptyBestPracticesReport \<and>
        cs_best_practices (csa_category_scores r) = 0 \<and>
        fmul (of_int (cs_best_practices (csa_category_scores r))) (lit (15 / 100)) = 0"
    by (simp add: b n z fmul_zero)
  have fw: "isl wo \<longrightarrow> csa_pwa r = createEmptyPWAReport \<and>
        cs_pwa (csa_category_scores r) = 0 \<and>
        fmul (of_int (cs_pwa (csa_category_scores r))) (lit (5 / 100)) = 0"
    by (simp add: w n z fmul_zero)
  have all: "isl po \<and> isl ao \<and> isl so \<and> isl bo \<and> isl wo \<longrightarrow> csa_overall_score r = 0"
    unfolding o using fp fa fs fb fw by (intro impI all_zero_overall) simp_all
  have nz: "csa_overall_score r =
      Math_round (fsum (filter (\<lambda>t. t \<noteq> 0) (weighted_terms (csa_category_scores r))))"
    unfolding o weighted_overall_score_def
    by (simp only: weighted_sum_nonzero_terms [symmetric])
  show ?thesis
    by (intro exI [of _ r] conjI r o nz fp fa fs fb fw all)
qed

theorem failed_adapters_degrade_witness:
  "isl (failure :: error + SEOReportContent LighthouseReport) \<and>
   (\<exists>r. runComprehensiveSiteAnalysis example_url example_now
          scenario_D_performance failure failure failure failure = Inr r \<and>
        csa_seo r = createEmptySEOReport \<and>
        cs_seo (csa_category_scores r) = 0 \<and>
        csa_pwa r = createEmptyPWAReport) \<and>
   (\<exists>r. runComprehensiveSiteAnalysis example_url example_now
          failure failure failure failure failure = Inr r \<and>
        csa_overall_score r = 0)"
proof -
  have i: "isl (failure :: error + 'z)"
    by (simp add: failure_def)
  have d: "\<exists>r. runComprehensiveSiteAnalysis example_url example_now
          scenario_D_performance failure failure failure failure = Inr r \<and>
        csa_seo r = createEmptySEOReport \<and>
        cs_seo (csa_category_scores r) = 0 \<and>
        csa_pwa r = createEmptyPWAReport"
    using failed_adapters_degrade [of example_url example_now
        scenario_D_performance failure failure failure failure]
    apply (simp only: i simp_thms)
    apply (elim exE conjE)
    apply (intro exI conjI)
       apply assumption+
    done
  have e: "\<exists>r. runComprehensiveSiteAnalysis example_url example_now
          failure failure failure failure failure = Inr r \<and>
        csa_overall_score r = 0"
    using failed_adapters_degrade [of example_url example_now
        failure failure failure failure failure]
    apply (simp only: i simp_thms)
    apply (elim exE conjE)
    apply (intro exI conjI)
     apply assumption+
    done
  show ?thesis
    by (intro conjI i d e)
qed

text \<open>
  When all five adapters fail the five reports are the empty ones, and on those the
  installability rules still hold: the result carries one insight and one action item.
\<close>

lemma all_failed_lists:
  "generateCrossCategoryInsights createEmptyPerformanceReport createEmptyAccessibilityReport
     createEmptySEOReport createEmptyBestPracticesReport createEmptyPWAReport = [insight_pwa] \<and>
   generatePrioritizedActionItems createEmptyPerformanceReport createEmptyAccessibilityReport
     createEmptySEOReport createEmptyBestPracticesReport createEmptyPWAReport insights =
     [action_pwa 1] \<and>
   generateQuickWins createEmptyPerformanceReport createEmptyAccessibilityReport
     createEmptySEOReport createEmptyBestPracticesReport createEmptyPWAReport = []"
proof -
  have c: "truthy_and_gt None x = False" "mobile_issues_positive createEmptySEOReport = False"
    "some p [] = False" for x p
    by (simp_all add: truthy_and_gt_def mobile_issues_positive_def some_def
        createEmptySEOReport_def)
  note e = empty_reports_canonical
  have a: "generateCrossCategoryInsights createEmptyPerformanceReport
     createEmptyAccessibilityReport createEmptySEOReport createEmptyBestPracticesReport
     createEmptyPWAReport = [insight_pwa]"
    unfolding insights_follow_rule_table spec_insight_rules_def
    by (simp add: e fired_def)
  have k: "action_candidates createEmptyPerformanceReport createEmptyAccessibilityReport
     createEmptySEOReport createEmptyBestPracticesReport createEmptyPWAReport = [action_pwa 1]"
    unfolding action_candidates_def Let_def
    by (simp add: e c push_if_def)
  have "sort_rank_slice [x] = [x\<lparr> rank := 1 \<rparr>]" for x
    by (simp add: sort_rank_slice_def array_sort_def update_ranks_def slice0_def)
  note g = this
  have s: "sort_rank_slice [action_pwa 1] = [action_pwa 1]"
    unfolding g by (simp add: action_pwa_def)
  have q: "generateQuickWins createEmptyPerformanceReport createEmptyAccessibilityReport
     createEmptySEOReport createEmptyBestPracticesReport createEmptyPWAReport = []"
    unfolding quick_wins_follow_rule_table spec_quick_win_rules_def
    by (simp add: e fired_def)
  show ?thesis
    by (intro conjI a q) (simp only: generatePrioritizedActionItems_def k s)
qed

end
